theory Spec2Isabelle
  imports Main
begin

section \<open>String primitives of the host language\<close>

text \<open>
  The sources are TypeScript. A string is modelled as a \<open>char list\<close>; the few
  built-in string and array methods the sources call are written out below with the
  semantics of the language standard.
\<close>

text \<open>\<open>s.split(c)\<close> for a one-character separator: always at least one piece.\<close>

fun split_on :: "char \<Rightarrow> string \<Rightarrow> string list" where
  "split_on c [] = [[]]"
| "split_on c (x # xs) =
     (if x = c then [] # split_on c xs
      else (case split_on c xs of
              [] \<Rightarrow> [[x]]
            | p # ps \<Rightarrow> (x # p) # ps))"

text \<open>\<open>xs.join(sep)\<close>.\<close>

fun join_with :: "string \<Rightarrow> string list \<Rightarrow> string" where
  "join_with sep [] = []"
| "join_with sep [x] = x"
| "join_with sep (x # y # ys) = x @ sep @ join_with sep (y # ys)"

text \<open>\<open>xs.indexOf(v)\<close>: the first index holding \<open>v\<close>, and \<open>-1\<close> when there is none.\<close>

fun index_of :: "'a \<Rightarrow> 'a list \<Rightarrow> int" where
  "index_of v [] = -1"
| "index_of v (x # xs) =
     (if x = v then 0
      else (let i = index_of v xs in if i < 0 then -1 else i + 1))"

text \<open>
  \<open>s.trim()\<close>: white space and line terminators are removed at both ends. Among the
  characters below \<open>0x100\<close> these are TAB, LF, VT, FF, CR, SPACE and NBSP.
\<close>

definition is_js_space :: "char \<Rightarrow> bool" where
  "is_js_space c \<longleftrightarrow>
     c \<in> {CHR 0x09, CHR 0x0A, CHR 0x0B, CHR 0x0C, CHR 0x0D, CHR 0x20, CHR 0xA0}"

definition trim :: "string \<Rightarrow> string" where
  "trim s = rev (dropWhile is_js_space (rev (dropWhile is_js_space s)))"

text \<open>Template interpolation of a boolean.\<close>

definition show_bool :: "bool \<Rightarrow> string" where
  "show_bool b = (if b then ''true'' else ''false'')"

section \<open>Session-key parser\<close>

text \<open>
  \<open>deriveChannel\<close> and \<open>derivePeerId\<close> occur twice in the repository, with the same
  text: in \<open>auth-memory-gate/src/scope.ts\<close> and in \<open>persist-user-identity/src/index.ts\<close>.
\<close>

definition deriveChannel :: "string \<Rightarrow> string" where
  "deriveChannel sessionKey =
     (let parts = split_on (CHR '':'') sessionKey
      in if length parts \<ge> 3 \<and> parts ! 0 = ''agent'' then parts ! 2
         else ''unknown'')"

definition derivePeerId :: "string \<Rightarrow> string" where
  "derivePeerId sessionKey =
     (let parts = split_on (CHR '':'') sessionKey
      in if length parts < 3 \<or> parts ! 0 \<noteq> ''agent'' then sessionKey
         else
           (let rest = drop 2 parts;
                directIdx = index_of ''direct'' rest
            in if directIdx \<ge> 0 \<and> directIdx < int (length rest) - 1
               then join_with '':'' (drop (nat (directIdx + 1)) rest)
               else if length rest \<ge> 2 then join_with '':'' (drop 1 rest)
               else (case rest of [] \<Rightarrow> sessionKey | r # _ \<Rightarrow> r)))"

section \<open>Scope deriver\<close>

record ScopeConfig =
  requireVerified :: "bool option"
  gateMessage :: "string option"

record ScopeResult =
  userId :: string
  externalId :: "string option"
  scopeKey :: string
  verified :: bool
  channel :: string
  peerId :: string

text \<open>The joined row of \<open>lp_users\<close> and \<open>lp_user_channels\<close> the gate reads.\<close>

record IdentityRow =
  id :: string
  external_id :: "string option"
  first_name :: "string option"
  last_name :: "string option"
  channel :: string
  channel_peer_id :: string
  verified :: bool

definition resolveScope :: "IdentityRow \<Rightarrow> string \<Rightarrow> string \<Rightarrow> ScopeResult" where
  "resolveScope identity ch peer =
     (let key = (case IdentityRow.external_id identity of
                   Some e \<Rightarrow> e
                 | None \<Rightarrow> IdentityRow.id identity)
      in \<lparr> ScopeResult.userId = IdentityRow.id identity,
           ScopeResult.externalId = IdentityRow.external_id identity,
           ScopeResult.scopeKey = key,
           ScopeResult.verified = IdentityRow.verified identity,
           ScopeResult.channel = ch,
           ScopeResult.peerId = peer \<rparr>)"

definition formatGatedMessage :: "ScopeConfig \<Rightarrow> string" where
  "formatGatedMessage config =
     (let customMsg = map_option trim (gateMessage config);
          lines = [''[MEMORY_SCOPE]'', ''gated: true'', ''[/MEMORY_SCOPE]'', '''']
      in join_with ''\<newline>''
           (case customMsg of
              Some m \<Rightarrow>
                if m \<noteq> [] then lines @ [m]
                else lines @ [''Memory retrieval is not available until identity is verified.'',
                              ''The user can verify by typing: /verify <token>'']
            | None \<Rightarrow>
                lines @ [''Memory retrieval is not available until identity is verified.'',
                         ''The user can verify by typing: /verify <token>'']))"

definition formatScopeBlock :: "ScopeResult \<Rightarrow> ScopeConfig \<Rightarrow> string" where
  "formatScopeBlock scope config =
     (if requireVerified config = Some True \<and> \<not> ScopeResult.verified scope
      then formatGatedMessage config
      else join_with ''\<newline>''
             [''[MEMORY_SCOPE]'',
              ''scope_key: '' @ scopeKey scope,
              ''user_id: '' @ userId scope,
              ''external_id: '' @ (case externalId scope of Some e \<Rightarrow> e | None \<Rightarrow> ''none''),
              ''verified: '' @ show_bool (ScopeResult.verified scope),
              ''gated: false'',
              ''[/MEMORY_SCOPE]''])"

section \<open>Token verifier\<close>

subsection \<open>Types\<close>

text \<open>The \<open>aud\<close> claim is a string or an array of strings.\<close>

datatype audience_claim = AudOne string | AudMany "string list"

text \<open>
  \<open>JWTPayload\<close>, with the fields the type declares. \<open>exp\<close> is a number of seconds;
  numbers are modelled as integers.
\<close>

record JWTPayload =
  sub :: "string option"
  given_name :: "string option"
  family_name :: "string option"
  name :: "string option"
  email :: "string option"
  exp :: "int option"
  iss :: "string option"
  aud :: "audience_claim option"

datatype auth_mode = Jwt_hs256 | Verify_endpoint

record AuthConfig =
  mode :: auth_mode
  jwtSecret :: "string option"
  verifyEndpoint :: "string option"
  issuer :: "string option"
  audience :: "string option"

text \<open>The body of the remote endpoint's answer, with the fields the code reads.\<close>

record EndpointData =
  user_id :: "string option"
  sub :: "string option"
  first_name :: "string option"
  last_name :: "string option"
  email :: "string option"

datatype raw_claims = RawPayload JWTPayload | RawData EndpointData

record VerifiedIdentity =
  externalId :: string
  firstName :: "string option"
  lastName :: "string option"
  email :: "string option"
  raw :: raw_claims

text \<open>
  What \<open>fetch\<close> does with the request: the promise rejects (transport failure, or the
  10 s abort signal fires), or a response arrives with its \<open>ok\<close> flag and its body,
  \<open>None\<close> when \<open>res.json()\<close> does not yield an object.
\<close>

datatype fetch_outcome = FetchRejected | FetchResponse bool "EndpointData option"

datatype js_error = TypeError

text \<open>
  What \<open>JSON.parse(...) as JWTPayload\<close> gives. The cast checks nothing, so the value is
  any JSON value. Two kinds of value make the code that follows throw, and they are
  kept apart from the payloads of the declared type:
  \<^item> \<open>Parse_throws\<close>: the text is no JSON, and \<open>JSON.parse\<close> throws;
  \<^item> \<open>Parsed_null\<close>: the value is \<open>null\<close>, of which no property can be read;
  \<^item> \<open>Parsed decoded name_ok\<close>: an object with the claims \<open>decoded\<close>. \<open>name_ok\<close> is
    \<open>False\<close> when its \<open>name\<close> claim is present and is neither a string nor \<open>null\<close> (a
    number, a boolean, an array or an object), so that it has no method \<open>split\<close>; the
    field \<open>name\<close> of \<open>decoded\<close> is not read then.
  For the other claims the cast is taken at its word.
\<close>

datatype parsed_payload = Parse_throws | Parsed_null | Parsed JWTPayload bool

text \<open>
  The parts of the platform the verifier and the command handlers call. They are
  parameters of the model:
  \<^item> \<open>hmac_sha256 key msg\<close>: the digest bytes of
    \<open>createHmac("sha256", key).update(msg)\<close>;
  \<^item> \<open>JSON_parse bytes\<close>: \<open>JSON.parse(buf.toString()) as JWTPayload\<close>;
  \<^item> \<open>Date_now\<close>: milliseconds since the epoch;
  \<^item> \<open>fetch_post endpoint token\<close>: the outcome of the POST request;
  \<^item> \<open>db_reachable\<close>: whether \<open>SELECT 1\<close> and the schema statements succeed;
  \<^item> \<open>sql_now k\<close> and \<open>gen_random_uuid k\<close>: the values of \<open>now()\<close> and
    \<open>gen_random_uuid()\<close> in the \<open>k\<close>-th writing statement of a handler call.
\<close>

record runtime =
  hmac_sha256 :: "string \<Rightarrow> string \<Rightarrow> nat list"
  JSON_parse :: "nat list \<Rightarrow> parsed_payload"
  Date_now :: int
  fetch_post :: "string \<Rightarrow> string \<Rightarrow> fetch_outcome"
  db_reachable :: bool
  sql_now :: "nat \<Rightarrow> int"
  gen_random_uuid :: "nat \<Rightarrow> string"

text \<open>A string-valued optional field is truthy when it is present and not empty.\<close>

definition truthy :: "string option \<Rightarrow> bool" where
  "truthy s = (case s of None \<Rightarrow> False | Some v \<Rightarrow> v \<noteq> [])"

subsection \<open>Base64url\<close>

text \<open>
  \<open>digest("base64url")\<close> writes three bytes as four characters of the URL-safe
  alphabet, without padding.
\<close>

definition base64url_alphabet :: string where
  "base64url_alphabet =
     ''ABCDEFGHIJKLMNOPQRSTUVWXYZabcdefghijklmnopqrstuvwxyz0123456789-_''"

fun sextets_of :: "nat list \<Rightarrow> nat list" where
  "sextets_of (x # y # z # r) =
     [x div 4, (x mod 4) * 16 + y div 16, (y mod 16) * 4 + z div 64, z mod 64]
       @ sextets_of r"
| "sextets_of [x, y] = [x div 4, (x mod 4) * 16 + y div 16, (y mod 16) * 4]"
| "sextets_of [x] = [x div 4, (x mod 4) * 16]"
| "sextets_of [] = []"

definition base64url_encode :: "nat list \<Rightarrow> string" where
  "base64url_encode bs = map (\<lambda>v. base64url_alphabet ! v) (sextets_of bs)"

text \<open>
  \<open>Buffer.from(s, "base64url")\<close> is lenient: both alphabets are accepted, a character
  outside them is skipped, decoding stops at the first \<open>=\<close>, and the bits of the last
  characters that do not fill a byte are dropped.
\<close>

definition unbase64 :: "char \<Rightarrow> nat option" where
  "unbase64 c =
     (let n = (of_char c :: nat)
      in if 65 \<le> n \<and> n \<le> 90 then Some (n - 65)
         else if 97 \<le> n \<and> n \<le> 122 then Some (n - 71)
         else if 48 \<le> n \<and> n \<le> 57 then Some (n + 4)
         else if c = CHR ''+'' \<or> c = CHR ''-'' then Some 62
         else if c = CHR ''/'' \<or> c = CHR ''_'' then Some 63
         else None)"

fun bytes_of :: "nat list \<Rightarrow> nat list" where
  "bytes_of (a # b # c # d # r) =
     [a * 4 + b div 16, (b mod 16) * 16 + c div 4, (c mod 4) * 64 + d] @ bytes_of r"
| "bytes_of [a, b, c] = [a * 4 + b div 16, (b mod 16) * 16 + c div 4]"
| "bytes_of [a, b] = [a * 4 + b div 16]"
| "bytes_of [a] = []"
| "bytes_of [] = []"

definition base64url_decode :: "string \<Rightarrow> nat list" where
  "base64url_decode s =
     bytes_of (List.map_filter unbase64 (takeWhile (\<lambda>c. c \<noteq> CHR ''='') s))"

text \<open>\<open>timingSafeEqual\<close> on buffers of the same length: equality of contents.\<close>

definition timingSafeEqual :: "nat list \<Rightarrow> nat list \<Rightarrow> bool" where
  "timingSafeEqual a b \<longleftrightarrow> a = b"

subsection \<open>Local signature verification\<close>

text \<open>
  \<open>verifyHS256\<close>. \<open>Inl\<close> is a thrown exception. \<open>createHmac\<close> throws when the key is
  \<open>undefined\<close>, which the non-null assertion \<open>config.jwtSecret!\<close> does not prevent. Only
  the call of \<open>JSON.parse\<close> stands in a \<open>try\<close>: reading \<open>decoded.exp\<close> of a payload that
  is \<open>null\<close> throws, and so does \<open>decoded.name?.split(" ")\<close>, reached after the subject
  check, when the \<open>name\<close> claim is not a string.
\<close>

definition verifyHS256 ::
  "runtime \<Rightarrow> string \<Rightarrow> AuthConfig \<Rightarrow> js_error + VerifiedIdentity option" where
  "verifyHS256 rt token config =
     (case split_on (CHR ''.'') token of
        [header, payload, signature] \<Rightarrow>
          (case jwtSecret config of
             None \<Rightarrow> Inl TypeError
           | Some secret \<Rightarrow>
               (let expected = base64url_encode (hmac_sha256 rt secret (header @ ''.'' @ payload));
                    sigBuf = base64url_decode signature;
                    expBuf = base64url_decode expected
                in if length sigBuf \<noteq> length expBuf \<or> \<not> timingSafeEqual sigBuf expBuf
                   then Inr None
                   else
                     (case JSON_parse rt (base64url_decode payload) of
                        Parse_throws \<Rightarrow> Inr None
                      | Parsed_null \<Rightarrow> Inl TypeError
                      | Parsed decoded name_ok \<Rightarrow>
                          if (case exp decoded of
                                None \<Rightarrow> False
                              | Some e \<Rightarrow> e \<noteq> 0 \<and> e < Date_now rt div 1000)
                          then Inr None
                          else if truthy (issuer config) \<and> iss decoded \<noteq> issuer config
                          then Inr None
                          else if truthy (audience config) \<and>
                                  \<not> (case aud decoded of
                                       Some (AudMany l) \<Rightarrow> the (audience config) \<in> set l
                                     | Some (AudOne a) \<Rightarrow> a = the (audience config)
                                     | None \<Rightarrow> False)
                          then Inr None
                          else if \<not> truthy (JWTPayload.sub decoded) then Inr None
                          else if \<not> name_ok then Inl TypeError
                          else
                            (let nameParts = (case name decoded of
                                                None \<Rightarrow> []
                                              | Some n \<Rightarrow> split_on (CHR '' '') n)
                             in Inr (Some
                                 \<lparr> VerifiedIdentity.externalId = the (JWTPayload.sub decoded),
                                   VerifiedIdentity.firstName =
                                     (case given_name decoded of
                                        Some g \<Rightarrow> Some g
                                      | None \<Rightarrow> (case nameParts of
                                                  [] \<Rightarrow> None
                                                | p # _ \<Rightarrow> Some p)),
                                   VerifiedIdentity.lastName =
                                     (case family_name decoded of
                                        Some f \<Rightarrow> Some f
                                      | None \<Rightarrow>
                                          (let l = join_with '' '' (drop 1 nameParts)
                                           in if l \<noteq> [] then Some l else None)),
                                   VerifiedIdentity.email = JWTPayload.email decoded,
                                   VerifiedIdentity.raw = RawPayload decoded \<rparr>)))))
      | _ \<Rightarrow> Inr None)"

subsection \<open>Remote verification\<close>

text \<open>\<open>verifyViaEndpoint\<close>: everything thrown inside is caught and becomes \<open>null\<close>.\<close>

definition verifyViaEndpoint :: "runtime \<Rightarrow> string \<Rightarrow> string \<Rightarrow> VerifiedIdentity option" where
  "verifyViaEndpoint rt token endpoint =
     (case fetch_post rt endpoint token of
        FetchRejected \<Rightarrow> None
      | FetchResponse ok body \<Rightarrow>
          if \<not> ok then None
          else
            (case body of
               None \<Rightarrow> None
             | Some data \<Rightarrow>
                 (let ext = (case user_id data of
                               Some u \<Rightarrow> Some u
                             | None \<Rightarrow> EndpointData.sub data)
                  in if \<not> truthy ext then None
                     else Some \<lparr> VerifiedIdentity.externalId = the ext,
                                 VerifiedIdentity.firstName = EndpointData.first_name data,
                                 VerifiedIdentity.lastName = EndpointData.last_name data,
                                 VerifiedIdentity.email = EndpointData.email data,
                                 VerifiedIdentity.raw = RawData data \<rparr>)))"

definition verifyToken ::
  "runtime \<Rightarrow> string \<Rightarrow> AuthConfig \<Rightarrow> js_error + VerifiedIdentity option" where
  "verifyToken rt token config =
     (if mode config = Jwt_hs256 \<and> truthy (jwtSecret config)
      then verifyHS256 rt token config
      else if mode config = Verify_endpoint \<and> truthy (verifyEndpoint config)
      then Inr (verifyViaEndpoint rt token (the (verifyEndpoint config)))
      else Inr None)"

section \<open>Message persistence ledger\<close>

text \<open>
  \<open>persist-postgres/src/db.ts\<close>. A table is the list of its rows; a statement that
  violates a constraint of the schema raises an error and changes nothing.
\<close>

datatype sql_error =
    UniqueViolation
  | ForeignKeyViolation
  | StringDataRightTruncation
  | NumericValueOutOfRange

text \<open>
  Storing into a \<open>VARCHAR(n)\<close> column: a longer value is an error, unless only spaces
  stick out, which are cut.
\<close>

definition varchar :: "nat \<Rightarrow> string \<Rightarrow> sql_error + string" where
  "varchar n s =
     (if length s \<le> n then Inr s
      else if (\<forall>c \<in> set (drop n s). c = CHR '' '') then Inr (take n s)
      else Inl StringDataRightTruncation)"

definition varchar_opt :: "nat \<Rightarrow> string option \<Rightarrow> sql_error + string option" where
  "varchar_opt n s =
     (case s of
        None \<Rightarrow> Inr None
      | Some v \<Rightarrow> (case varchar n v of Inl e \<Rightarrow> Inl e | Inr v' \<Rightarrow> Inr (Some v')))"

record PgSessionRow =
  id :: string
  session_key :: string
  channel :: string
  started_at :: int
  last_message_at :: int
  message_count :: int

record PgMessageRow =
  id :: string
  conversation_id :: string
  role :: string
  content :: string
  created_at :: int
  metadata :: "(string \<times> string) list"

record ledger =
  lp_conversations :: "PgSessionRow list"
  lp_messages :: "PgMessageRow list"

record UpsertOpts =
  sessionKey :: string
  channel :: string
  startedAt :: "int option"
  lastMessageAt :: "int option"

text \<open>
  \<open>upsertConversation\<close>. \<open>uuid\<close> is the value of \<open>gen_random_uuid()\<close> and \<open>now\<close> that
  of \<open>new Date()\<close>. \<open>message_count\<close> is an \<open>INTEGER\<close> column with default 0.
\<close>

definition upsertConversation ::
  "ledger \<Rightarrow> string \<Rightarrow> int \<Rightarrow> UpsertOpts \<Rightarrow> sql_error + (ledger \<times> PgSessionRow)" where
  "upsertConversation db uuid now opts =
     (case varchar 512 (sessionKey opts) of
        Inl e \<Rightarrow> Inl e
      | Inr key \<Rightarrow>
     (case varchar 50 (UpsertOpts.channel opts) of
        Inl e \<Rightarrow> Inl e
      | Inr ch \<Rightarrow>
          (let started = (case startedAt opts of Some t \<Rightarrow> t | None \<Rightarrow> now);
               lastMsg = (case lastMessageAt opts of Some t \<Rightarrow> t | None \<Rightarrow> now)
           in case List.find (\<lambda>r. session_key r = key) (lp_conversations db) of
                Some old \<Rightarrow>
                  if message_count old + 1 > 2147483647 then Inl NumericValueOutOfRange
                  else
                    (let new = old \<lparr> last_message_at := lastMsg,
                                     message_count := message_count old + 1 \<rparr>
                     in Inr (db \<lparr> lp_conversations :=
                                    map (\<lambda>r. if session_key r = key then new else r)
                                        (lp_conversations db) \<rparr>,
                             new))
              | None \<Rightarrow>
                  if uuid \<in> PgSessionRow.id ` set (lp_conversations db)
                  then Inl UniqueViolation
                  else
                    (let new = \<lparr> PgSessionRow.id = uuid,
                                  PgSessionRow.session_key = key,
                                  PgSessionRow.channel = ch,
                                  PgSessionRow.started_at = started,
                                  PgSessionRow.last_message_at = lastMsg,
                                  PgSessionRow.message_count = 0 \<rparr>
                     in Inr (db \<lparr> lp_conversations := lp_conversations db @ [new] \<rparr>,
                             new)))))"

record InsertOpts =
  conversationId :: string
  role :: string
  content :: string
  metadata :: "(string \<times> string) list option"

text \<open>\<open>insertMessage\<close>. \<open>now\<close> is the value of the column default \<open>now()\<close>.\<close>

definition insertMessage ::
  "ledger \<Rightarrow> string \<Rightarrow> int \<Rightarrow> InsertOpts \<Rightarrow> sql_error + (ledger \<times> PgMessageRow)" where
  "insertMessage db uuid now opts =
     (case varchar 20 (InsertOpts.role opts) of
        Inl e \<Rightarrow> Inl e
      | Inr r \<Rightarrow>
          if conversationId opts \<notin> PgSessionRow.id ` set (lp_conversations db)
          then Inl ForeignKeyViolation
          else if uuid \<in> PgMessageRow.id ` set (lp_messages db)
          then Inl UniqueViolation
          else
            (let new = \<lparr> PgMessageRow.id = uuid,
                          PgMessageRow.conversation_id = conversationId opts,
                          PgMessageRow.role = r,
                          PgMessageRow.content = InsertOpts.content opts,
                          PgMessageRow.created_at = now,
                          PgMessageRow.metadata =
                            (case InsertOpts.metadata opts of Some m \<Rightarrow> m | None \<Rightarrow> []) \<rparr>
             in Inr (db \<lparr> lp_messages := lp_messages db @ [new] \<rparr>, new)))"

text \<open>The number of message rows attached to a conversation.\<close>

definition messages_of :: "ledger \<Rightarrow> string \<Rightarrow> nat" where
  "messages_of db cid =
     length (filter (\<lambda>m. PgMessageRow.conversation_id m = cid) (lp_messages db))"

text \<open>A persistence operation, and a run of them that stops at the first error.\<close>

datatype ledger_op =
    Upsert string int UpsertOpts
  | Insert string int InsertOpts

fun ledger_step :: "ledger \<Rightarrow> ledger_op \<Rightarrow> sql_error + ledger" where
  "ledger_step db (Upsert uuid now opts) =
     (case upsertConversation db uuid now opts of Inl e \<Rightarrow> Inl e | Inr (db', _) \<Rightarrow> Inr db')"
| "ledger_step db (Insert uuid now opts) =
     (case insertMessage db uuid now opts of Inl e \<Rightarrow> Inl e | Inr (db', _) \<Rightarrow> Inr db')"

fun ledger_run :: "ledger \<Rightarrow> ledger_op list \<Rightarrow> sql_error + ledger" where
  "ledger_run db [] = Inr db"
| "ledger_run db (x # xs) =
     (case ledger_step db x of Inl e \<Rightarrow> Inl e | Inr db' \<Rightarrow> ledger_run db' xs)"

section \<open>Identity store\<close>

text \<open>\<open>persist-user-identity\<close>: the queries of its \<open>db.ts\<close>, over the two tables.\<close>

record UserRow =
  id :: string
  external_id :: "string option"
  first_name :: "string option"
  last_name :: "string option"
  created_at :: int
  updated_at :: int

record UserChannelRow =
  id :: string
  user_id :: string
  channel :: string
  channel_peer_id :: string
  linked_at :: int

record ResolvedIdentity = UserRow +
  channel :: string
  channel_peer_id :: string
  verified :: bool

record identity_db =
  lp_users :: "UserRow list"
  lp_user_channels :: "UserChannelRow list"

text \<open>
  \<open>findUserByChannelPeer\<close>: the first row of the join. Under the constraints of the
  schema at most one row matches.
\<close>

definition findUserByChannelPeer ::
  "identity_db \<Rightarrow> string \<Rightarrow> string \<Rightarrow> ResolvedIdentity option" where
  "findUserByChannelPeer db ch peer =
     (case List.find
             (\<lambda>(u, uc). UserChannelRow.user_id uc = UserRow.id u
                        \<and> UserChannelRow.channel uc = ch
                        \<and> UserChannelRow.channel_peer_id uc = peer)
             (List.product (lp_users db) (lp_user_channels db)) of
        None \<Rightarrow> None
      | Some (u, uc) \<Rightarrow>
          Some \<lparr> UserRow.id = UserRow.id u,
                 UserRow.external_id = UserRow.external_id u,
                 UserRow.first_name = UserRow.first_name u,
                 UserRow.last_name = UserRow.last_name u,
                 UserRow.created_at = UserRow.created_at u,
                 UserRow.updated_at = UserRow.updated_at u,
                 ResolvedIdentity.channel = UserChannelRow.channel uc,
                 ResolvedIdentity.channel_peer_id = UserChannelRow.channel_peer_id uc,
                 ResolvedIdentity.verified = (UserRow.external_id u \<noteq> None) \<rparr>)"

definition findUserByExternalId :: "identity_db \<Rightarrow> string \<Rightarrow> UserRow option" where
  "findUserByExternalId db ext =
     List.find (\<lambda>u. UserRow.external_id u = Some ext) (lp_users db)"

record CreateUserOpts =
  firstName :: "string option"
  lastName :: "string option"
  externalId :: "string option"

definition createUser ::
  "identity_db \<Rightarrow> string \<Rightarrow> int \<Rightarrow> CreateUserOpts \<Rightarrow> sql_error + (identity_db \<times> UserRow)" where
  "createUser db uuid now opts =
     (case varchar_opt 128 (CreateUserOpts.firstName opts) of
        Inl e \<Rightarrow> Inl e
      | Inr fn \<Rightarrow>
     (case varchar_opt 128 (CreateUserOpts.lastName opts) of
        Inl e \<Rightarrow> Inl e
      | Inr ln \<Rightarrow>
     (case varchar_opt 256 (CreateUserOpts.externalId opts) of
        Inl e \<Rightarrow> Inl e
      | Inr ext \<Rightarrow>
          if uuid \<in> UserRow.id ` set (lp_users db) then Inl UniqueViolation
          else if ext \<noteq> None \<and> ext \<in> UserRow.external_id ` set (lp_users db)
          then Inl UniqueViolation
          else
            (let new = \<lparr> UserRow.id = uuid,
                          UserRow.external_id = ext,
                          UserRow.first_name = fn,
                          UserRow.last_name = ln,
                          UserRow.created_at = now,
                          UserRow.updated_at = now \<rparr>
             in Inr (db \<lparr> lp_users := lp_users db @ [new] \<rparr>, new)))))"

text \<open>\<open>linkChannelToUser\<close>: insert, or reassign the row of the pair on conflict.\<close>

definition linkChannelToUser ::
  "identity_db \<Rightarrow> string \<Rightarrow> int \<Rightarrow> string \<Rightarrow> string \<Rightarrow> string
     \<Rightarrow> sql_error + (identity_db \<times> UserChannelRow)" where
  "linkChannelToUser db uuid now uid ch peer =
     (case varchar 50 ch of
        Inl e \<Rightarrow> Inl e
      | Inr c \<Rightarrow>
     (case varchar 512 peer of
        Inl e \<Rightarrow> Inl e
      | Inr p \<Rightarrow>
          if uid \<notin> UserRow.id ` set (lp_users db) then Inl ForeignKeyViolation
          else
            (case List.find (\<lambda>r. UserChannelRow.channel r = c
                                 \<and> UserChannelRow.channel_peer_id r = p)
                            (lp_user_channels db) of
               Some old \<Rightarrow>
                 (let new = old \<lparr> UserChannelRow.user_id := uid,
                                  UserChannelRow.linked_at := now \<rparr>
                  in Inr (db \<lparr> lp_user_channels :=
                                 map (\<lambda>r. if UserChannelRow.channel r = c
                                              \<and> UserChannelRow.channel_peer_id r = p
                                           then new else r)
                                     (lp_user_channels db) \<rparr>,
                          new))
             | None \<Rightarrow>
                 if uuid \<in> UserChannelRow.id ` set (lp_user_channels db)
                 then Inl UniqueViolation
                 else
                   (let new = \<lparr> UserChannelRow.id = uuid,
                                 UserChannelRow.user_id = uid,
                                 UserChannelRow.channel = c,
                                 UserChannelRow.channel_peer_id = p,
                                 UserChannelRow.linked_at = now \<rparr>
                    in Inr (db \<lparr> lp_user_channels := lp_user_channels db @ [new] \<rparr>,
                            new)))))"

text \<open>
  \<open>linkExternalId\<close>. The \<open>UPDATE\<close> returns no row when no user has the id; then
  \<open>rows[0]\<close> is \<open>undefined\<close>, here \<open>None\<close>.
\<close>

definition linkExternalId ::
  "identity_db \<Rightarrow> string \<Rightarrow> int \<Rightarrow> string \<Rightarrow> string \<Rightarrow> string \<Rightarrow> string
     \<Rightarrow> sql_error + (identity_db \<times> UserRow option)" where
  "linkExternalId db uuid now uid ext ch peer =
     (case findUserByExternalId db ext of
        Some existing \<Rightarrow>
          (case linkChannelToUser db uuid now (UserRow.id existing) ch peer of
             Inl e \<Rightarrow> Inl e
           | Inr (db', _) \<Rightarrow> Inr (db', Some existing))
      | None \<Rightarrow>
          (case List.find (\<lambda>u. UserRow.id u = uid) (lp_users db) of
             None \<Rightarrow> Inr (db, None)
           | Some old \<Rightarrow>
               (case varchar 256 ext of
                  Inl e \<Rightarrow> Inl e
                | Inr ext' \<Rightarrow>
                    if Some ext' \<in> UserRow.external_id `
                          set (filter (\<lambda>u. UserRow.id u \<noteq> uid) (lp_users db))
                    then Inl UniqueViolation
                    else
                      (let new = old \<lparr> UserRow.external_id := Some ext',
                                       UserRow.updated_at := now \<rparr>
                       in Inr (db \<lparr> lp_users :=
                                      map (\<lambda>u. if UserRow.id u = uid then new else u)
                                          (lp_users db) \<rparr>,
                               Some new)))))"

text \<open>\<open>listUserChannels\<close>: the links of a user, ordered by \<open>linked_at\<close>.\<close>

definition listUserChannels :: "identity_db \<Rightarrow> string \<Rightarrow> UserChannelRow list" where
  "listUserChannels db uid =
     sort_key UserChannelRow.linked_at
       (filter (\<lambda>r. UserChannelRow.user_id r = uid) (lp_user_channels db))"

section \<open>The /verify command\<close>

text \<open>
  The state of the plugin: the two flags of \<open>ensureReady\<close> and the database. A command
  handler returns a reply, or its promise rejects.
\<close>

record plugin_state =
  schemaReady :: bool
  initError :: bool
  sql :: identity_db

record CommandCtx =
  args :: "string option"
  channel :: "string option"
  senderId :: "string option"
  from' :: "string option"

datatype command_result = Reply string | Rejected

text \<open>\<open>ensureReady\<close>: the flag is \<open>True\<close> when the call returns, \<open>False\<close> when it throws.\<close>

definition ensureReady :: "runtime \<Rightarrow> plugin_state \<Rightarrow> plugin_state \<times> bool" where
  "ensureReady rt st =
     (if schemaReady st then (st, True)
      else if initError st then (st, False)
      else if db_reachable rt then (st \<lparr> schemaReady := True \<rparr>, True)
      else (st \<lparr> initError := True \<rparr>, False))"

text \<open>
  The channel and the peer id a command handler takes from its context:
  \<open>ctx.channel ?? "unknown"\<close> and \<open>ctx.senderId ?? ctx.from ?? "unknown"\<close>.
\<close>

definition ctx_channel :: "CommandCtx \<Rightarrow> string" where
  "ctx_channel ctx = (case CommandCtx.channel ctx of Some c \<Rightarrow> c | None \<Rightarrow> ''unknown'')"

definition ctx_peer :: "CommandCtx \<Rightarrow> string" where
  "ctx_peer ctx =
     (case senderId ctx of
        Some s \<Rightarrow> s
      | None \<Rightarrow> (case from' ctx of Some f \<Rightarrow> f | None \<Rightarrow> ''unknown''))"

definition or_empty :: "string option \<Rightarrow> string" where
  "or_empty s = (case s of Some v \<Rightarrow> v | None \<Rightarrow> [])"

text \<open>
  The handler after the token has been verified (\<open>index.ts\<close>, lines 228 to 268). A
  statement that raises leaves the writes before it in place.
\<close>

definition verify_link ::
  "runtime \<Rightarrow> VerifiedIdentity \<Rightarrow> string \<Rightarrow> string \<Rightarrow> plugin_state
     \<Rightarrow> plugin_state \<times> command_result" where
  "verify_link rt ident ch peer st =
     (let existingLink = findUserByChannelPeer (sql st) ch peer
      in if (case existingLink of
               Some l \<Rightarrow> UserRow.external_id l = Some (VerifiedIdentity.externalId ident)
             | None \<Rightarrow> False)
         then (st, Reply (trim (''You're already verified as ''
                                  @ or_empty (UserRow.first_name (the existingLink)) @ '' ''
                                  @ or_empty (UserRow.last_name (the existingLink))
                                  @ ''. No changes made.'')))
         else
           (case (case findUserByExternalId (sql st) (VerifiedIdentity.externalId ident) of
                    Some u \<Rightarrow> Inr (sql st, u)
                  | None \<Rightarrow>
                      createUser (sql st) (gen_random_uuid rt 0) (sql_now rt 0)
                        \<lparr> CreateUserOpts.firstName = VerifiedIdentity.firstName ident,
                          CreateUserOpts.lastName = VerifiedIdentity.lastName ident,
                          CreateUserOpts.externalId =
                            Some (VerifiedIdentity.externalId ident) \<rparr>) of
              Inl e \<Rightarrow> (st, Rejected)
            | Inr (db1, user) \<Rightarrow>
           (case linkChannelToUser db1 (gen_random_uuid rt 1) (sql_now rt 1)
                   (UserRow.id user) ch peer of
              Inl e \<Rightarrow> (st \<lparr> sql := db1 \<rparr>, Rejected)
            | Inr (db2, _) \<Rightarrow>
           (case (if (case existingLink of
                        Some l \<Rightarrow> \<not> truthy (UserRow.external_id l)
                      | None \<Rightarrow> False)
                  then (case linkExternalId db2 (gen_random_uuid rt 2) (sql_now rt 2)
                               (UserRow.id (the existingLink))
                               (VerifiedIdentity.externalId ident) ch peer of
                          Inl e \<Rightarrow> Inl e
                        | Inr (db', _) \<Rightarrow> Inr db')
                  else Inr db2) of
              Inl e \<Rightarrow> (st \<lparr> sql := db2 \<rparr>, Rejected)
            | Inr db3 \<Rightarrow>
                (let channels = listUserChannels db3 (UserRow.id user);
                     channelList =
                       join_with '', ''
                         (map (\<lambda>c. UserChannelRow.channel c @ '':''
                                     @ UserChannelRow.channel_peer_id c) channels);
                     nm = trim
                       ((case UserRow.first_name user of
                           Some f \<Rightarrow> f
                         | None \<Rightarrow> or_empty (VerifiedIdentity.firstName ident))
                        @ '' '' @
                        (case UserRow.last_name user of
                           Some l \<Rightarrow> l
                         | None \<Rightarrow> or_empty (VerifiedIdentity.lastName ident)))
                 in (st \<lparr> sql := db3 \<rparr>,
                     Reply (''Identity verified! Welcome''
                              @ (if nm \<noteq> [] then '', '' @ nm else [])
                              @ ''.\<newline>Your user ID: '' @ UserRow.id user
                              @ ''\<newline>Linked channels: '' @ channelList)))))))"

text \<open>The handler of \<open>/verify\<close>; \<open>authConfig\<close> is the plugin's \<open>auth\<close> setting.\<close>

definition verify_command ::
  "runtime \<Rightarrow> AuthConfig option \<Rightarrow> CommandCtx \<Rightarrow> plugin_state
     \<Rightarrow> plugin_state \<times> command_result" where
  "verify_command rt authConfig ctx st =
     (let token = map_option trim (args ctx)
      in if \<not> truthy token then (st, Reply ''Usage: /verify <authorization_token>'')
         else
           (case authConfig of
              None \<Rightarrow>
                (st, Reply (''Token verification is not configured on this agent. ''
                            @ ''Please contact the administrator.''))
            | Some config \<Rightarrow>
                (case ensureReady rt st of
                   (st1, False) \<Rightarrow> (st1, Reply ''Identity service is temporarily unavailable.'')
                 | (st1, True) \<Rightarrow>
                     (let ch = ctx_channel ctx;
                          peer = ctx_peer ctx
                      in case verifyToken rt (the token) config of
                           Inl e \<Rightarrow> (st1, Rejected)
                         | Inr None \<Rightarrow>
                             (st1, Reply (''Token verification failed. ''
                                          @ ''Please check your token and try again.''))
                         | Inr (Some ident) \<Rightarrow> verify_link rt ident ch peer st1))))"

text \<open>
  The constraints that \<open>ensureUserSchema\<close> declares: the primary keys, \<open>UNIQUE\<close> on
  \<open>external_id\<close> (where it is not null) and on the pair \<open>(channel, channel_peer_id)\<close>,
  and the foreign key from a link to its user.
\<close>

definition schema_ok :: "identity_db \<Rightarrow> bool" where
  "schema_ok db \<longleftrightarrow>
     distinct (map UserRow.id (lp_users db)) \<and>
     distinct (List.map_filter UserRow.external_id (lp_users db)) \<and>
     distinct (map UserChannelRow.id (lp_user_channels db)) \<and>
     distinct (map (\<lambda>r. (UserChannelRow.channel r, UserChannelRow.channel_peer_id r))
                   (lp_user_channels db)) \<and>
     (\<forall>r \<in> set (lp_user_channels db).
         UserChannelRow.user_id r \<in> UserRow.id ` set (lp_users db))"

section \<open>Example inputs\<close>

text \<open>The session key \<open>agent:{a}:{c}:{p1}:{p2}\<close>.\<close>

definition session_key :: "string \<Rightarrow> string \<Rightarrow> string \<Rightarrow> string \<Rightarrow> string" where
  "session_key a c p1 p2 = ''agent:'' @ a @ '':'' @ c @ '':'' @ p1 @ '':'' @ p2"

definition demo_upsert :: UpsertOpts where
  "demo_upsert =
     \<lparr> sessionKey = ''agent:main:telegram:user123'', UpsertOpts.channel = ''gateway'',
       startedAt = None, lastMessageAt = Some 1000 \<rparr>"

definition demo_insert :: InsertOpts where
  "demo_insert =
     \<lparr> conversationId = ''c-1'', InsertOpts.role = ''user'',
       InsertOpts.content = ''hello'', InsertOpts.metadata = None \<rparr>"

text \<open>
  Five HS256 tokens signed with the secret \<open>test-secret\<close>. The header is
  \<^verbatim>\<open>{"alg":"HS256","typ":"JWT"}\<close>; the payloads are
  \<^verbatim>\<open>{"sub":"ext-42","name":"Ana Lopez"}\<close>,
  \<^verbatim>\<open>{"sub":"ext-42","exp":0}\<close>,
  \<^verbatim>\<open>{"sub":"ext-42","exp":1700000000}\<close>,
  \<^verbatim>\<open>null\<close> and
  \<^verbatim>\<open>{"sub":"ext-42","name":42}\<close>.
\<close>

definition demo_header :: string where
  "demo_header = ''eyJhbGciOiJIUzI1NiIsInR5cCI6IkpXVCJ9''"

definition demo_payload_name :: string where
  "demo_payload_name = ''eyJzdWIiOiJleHQtNDIiLCJuYW1lIjoiQW5hIExvcGV6In0''"

definition demo_payload_exp0 :: string where
  "demo_payload_exp0 = ''eyJzdWIiOiJleHQtNDIiLCJleHAiOjB9''"

definition demo_payload_exp :: string where
  "demo_payload_exp = ''eyJzdWIiOiJleHQtNDIiLCJleHAiOjE3MDAwMDAwMDB9''"

definition demo_payload_null :: string where
  "demo_payload_null = ''bnVsbA''"

definition demo_payload_name42 :: string where
  "demo_payload_name42 = ''eyJzdWIiOiJleHQtNDIiLCJuYW1lIjo0Mn0''"

definition demo_token_name :: string where
  "demo_token_name =
     demo_header @ ''.'' @ demo_payload_name @ ''.''
       @ ''HB7XGOHBVE3_Ya6bNltz5-dvEw0IeyWhlB6L9WufX3w''"

text \<open>The same token with the last character of the signature changed from \<open>w\<close> to \<open>x\<close>.\<close>

definition demo_token_tampered :: string where
  "demo_token_tampered =
     demo_header @ ''.'' @ demo_payload_name @ ''.''
       @ ''HB7XGOHBVE3_Ya6bNltz5-dvEw0IeyWhlB6L9WufX3x''"

definition demo_token_exp0 :: string where
  "demo_token_exp0 =
     demo_header @ ''.'' @ demo_payload_exp0 @ ''.''
       @ ''egw9DjqNcJqSxPbQNJNrQGDW1TabQ7BrkfcojKuSv2I''"

definition demo_token_exp :: string where
  "demo_token_exp =
     demo_header @ ''.'' @ demo_payload_exp @ ''.''
       @ ''pU-cF0arNUNG2z9Y6KVB95AV-IgXqdr0nEk8Gd25r9c''"

definition demo_token_null :: string where
  "demo_token_null =
     demo_header @ ''.'' @ demo_payload_null @ ''.''
       @ ''BF4LHTey6WwVbYuKSP_kyfeB2-PZPEJYHmkdp_R92y4''"

definition demo_token_name42 :: string where
  "demo_token_name42 =
     demo_header @ ''.'' @ demo_payload_name42 @ ''.''
       @ ''RHqvxNhZnhv3fgQI3ra5omadB0hfhACQEbOxp0_hxUk''"

text \<open>
  The platform at these inputs: the HMAC-SHA256 digests of the five signing inputs
  under the key \<open>test-secret\<close>, the five payloads as \<open>JSON.parse\<close> reads them, and an
  endpoint that knows one token.
\<close>

definition demo_hmac :: "string \<Rightarrow> string \<Rightarrow> nat list" where
  "demo_hmac key msg =
     (if key = ''test-secret'' \<and> msg = demo_header @ ''.'' @ demo_payload_name
      then [28, 30, 215, 24, 225, 193, 84, 77, 255, 97, 174, 155, 54, 91, 115, 231,
            231, 111, 19, 13, 8, 123, 37, 161, 148, 30, 139, 245, 107, 159, 95, 124]
      else if key = ''test-secret'' \<and> msg = demo_header @ ''.'' @ demo_payload_exp0
      then [122, 12, 61, 14, 58, 141, 112, 154, 146, 196, 246, 208, 52, 147, 107, 64,
            96, 214, 213, 54, 155, 67, 176, 107, 145, 247, 40, 140, 171, 146, 191, 98]
      else if key = ''test-secret'' \<and> msg = demo_header @ ''.'' @ demo_payload_exp
      then [165, 79, 156, 23, 70, 171, 53, 67, 70, 219, 63, 88, 232, 165, 65, 247,
            144, 21, 248, 136, 23, 169, 218, 244, 156, 73, 60, 25, 221, 185, 175, 215]
      else if key = ''test-secret'' \<and> msg = demo_header @ ''.'' @ demo_payload_null
      then [4, 94, 11, 29, 55, 178, 233, 108, 21, 109, 139, 138, 72, 255, 228, 201,
            247, 129, 219, 227, 217, 60, 66, 88, 30, 105, 29, 167, 244, 125, 219, 46]
      else if key = ''test-secret'' \<and> msg = demo_header @ ''.'' @ demo_payload_name42
      then [68, 122, 175, 196, 216, 89, 158, 27, 247, 126, 4, 8, 222, 182, 185, 162,
            102, 157, 7, 72, 95, 132, 0, 144, 17, 179, 177, 167, 79, 225, 197, 73]
      else replicate 32 0)"

definition demo_claims :: JWTPayload where
  "demo_claims =
     \<lparr> JWTPayload.sub = Some ''ext-42'', given_name = None, family_name = None,
       name = None, JWTPayload.email = None, exp = None, iss = None, aud = None \<rparr>"

definition demo_json :: "nat list \<Rightarrow> parsed_payload" where
  "demo_json bytes =
     (if bytes = base64url_decode demo_payload_name
      then Parsed (demo_claims \<lparr> name := Some ''Ana Lopez'' \<rparr>) True
      else if bytes = base64url_decode demo_payload_exp0
      then Parsed (demo_claims \<lparr> exp := Some 0 \<rparr>) True
      else if bytes = base64url_decode demo_payload_exp
      then Parsed (demo_claims \<lparr> exp := Some 1700000000 \<rparr>) True
      else if bytes = base64url_decode demo_payload_null
      then Parsed_null
      else if bytes = base64url_decode demo_payload_name42
      then Parsed demo_claims False
      else Parse_throws)"

definition demo_fetch :: "string \<Rightarrow> string \<Rightarrow> fetch_outcome" where
  "demo_fetch endpoint token =
     (if endpoint = ''https://myapp.example/api/verify'' \<and> token = ''app-token-1''
      then FetchResponse True
             (Some \<lparr> EndpointData.user_id = Some ''ext-42'', EndpointData.sub = None,
                     EndpointData.first_name = Some ''Ana'',
                     EndpointData.last_name = Some ''Lopez'',
                     EndpointData.email = None \<rparr>)
      else if token = ''unreachable'' then FetchRejected
      else FetchResponse False None)"

text \<open>The clock stands at 2026-01-01T00:00:00Z.\<close>

definition demo_runtime :: runtime where
  "demo_runtime =
     \<lparr> hmac_sha256 = demo_hmac,
       JSON_parse = demo_json,
       Date_now = 1767225600000,
       fetch_post = demo_fetch,
       db_reachable = True,
       sql_now = (\<lambda>k. 1767225600000 + int k),
       gen_random_uuid = (\<lambda>k. ''00000000-0000-4000-8000-00000000000'' @ [''abc'' ! k]) \<rparr>"

definition demo_config :: AuthConfig where
  "demo_config =
     \<lparr> mode = Jwt_hs256, jwtSecret = Some ''test-secret'', verifyEndpoint = None,
       issuer = None, audience = None \<rparr>"

definition demo_endpoint_config :: AuthConfig where
  "demo_endpoint_config =
     \<lparr> mode = Verify_endpoint, jwtSecret = None,
       verifyEndpoint = Some ''https://myapp.example/api/verify'',
       issuer = None, audience = None \<rparr>"

text \<open>
  The peer \<open>("whatsapp", "+15551230000")\<close>, registered as Ana Lopez and not verified,
  and the \<open>/verify\<close> command it sends with the first token.
\<close>

definition demo_user :: UserRow where
  "demo_user =
     \<lparr> UserRow.id = ''11111111-1111-4111-8111-111111111111'',
       UserRow.external_id = None,
       UserRow.first_name = Some ''Ana'', UserRow.last_name = Some ''Lopez'',
       UserRow.created_at = 1767000000000, UserRow.updated_at = 1767000000000 \<rparr>"

definition demo_link :: UserChannelRow where
  "demo_link =
     \<lparr> UserChannelRow.id = ''22222222-2222-4222-8222-222222222222'',
       UserChannelRow.user_id = ''11111111-1111-4111-8111-111111111111'',
       UserChannelRow.channel = ''whatsapp'',
       UserChannelRow.channel_peer_id = ''+15551230000'',
       UserChannelRow.linked_at = 1767000000000 \<rparr>"

definition demo_registered :: plugin_state where
  "demo_registered =
     \<lparr> schemaReady = True, initError = False,
       sql = \<lparr> lp_users = [demo_user], lp_user_channels = [demo_link] \<rparr> \<rparr>"

definition demo_ctx :: CommandCtx where
  "demo_ctx =
     \<lparr> args = Some demo_token_name, CommandCtx.channel = Some ''whatsapp'',
       senderId = Some ''+15551230000'', from' = None \<rparr>"

text \<open>The same peer after a first successful \<open>/verify\<close> with that token.\<close>

definition demo_user_verified :: UserRow where
  "demo_user_verified =
     \<lparr> UserRow.id = ''00000000-0000-4000-8000-00000000000a'',
       UserRow.external_id = Some ''ext-42'',
       UserRow.first_name = Some ''Ana'', UserRow.last_name = Some ''Lopez'',
       UserRow.created_at = 1767225600000, UserRow.updated_at = 1767225600000 \<rparr>"

definition demo_link_verified :: UserChannelRow where
  "demo_link_verified =
     \<lparr> UserChannelRow.id = ''22222222-2222-4222-8222-222222222222'',
       UserChannelRow.user_id = ''00000000-0000-4000-8000-00000000000a'',
       UserChannelRow.channel = ''whatsapp'',
       UserChannelRow.channel_peer_id = ''+15551230000'',
       UserChannelRow.linked_at = 1767225600002 \<rparr>"

definition demo_verified :: plugin_state where
  "demo_verified =
     \<lparr> schemaReady = True, initError = False,
       sql = \<lparr> lp_users = [demo_user, demo_user_verified],
               lp_user_channels = [demo_link_verified] \<rparr> \<rparr>"

definition demo_identity :: VerifiedIdentity where
  "demo_identity =
     \<lparr> VerifiedIdentity.externalId = ''ext-42'',
       VerifiedIdentity.firstName = Some ''Ana'',
       VerifiedIdentity.lastName = Some ''Lopez'',
       VerifiedIdentity.email = None,
       VerifiedIdentity.raw = RawPayload (demo_claims \<lparr> name := Some ''Ana Lopez'' \<rparr>) \<rparr>"

section \<open>Properties of the session-key parser\<close>

lemma split_on_no_sep: "c \<notin> set s \<Longrightarrow> split_on c s = [s]"
  by (induction s) auto

lemma split_on_segment:
  "c \<notin> set s \<Longrightarrow> split_on c (s @ c # t) = s # split_on c t"
  by (induction s) auto

lemma split_session_key:
  assumes "CHR '':'' \<notin> set a" "CHR '':'' \<notin> set c"
    and "CHR '':'' \<notin> set p1" "CHR '':'' \<notin> set p2"
  shows "split_on (CHR '':'') (session_key a c p1 p2) = [''agent'', a, c, p1, p2]"
proof -
  have s1: "split_on (CHR '':'') (p1 @ CHR '':'' # p2) = [p1, p2]"
    using assms(3,4) by (simp add: split_on_segment split_on_no_sep)
  have s2: "split_on (CHR '':'') (c @ CHR '':'' # p1 @ CHR '':'' # p2) = [c, p1, p2]"
    using assms(2) s1 by (simp add: split_on_segment)
  have s3: "split_on (CHR '':'') (a @ CHR '':'' # c @ CHR '':'' # p1 @ CHR '':'' # p2)
              = [a, c, p1, p2]"
    using assms(1) s2 by (simp add: split_on_segment)
  have "split_on (CHR '':'')
          (''agent'' @ CHR '':'' # a @ CHR '':'' # c @ CHR '':'' # p1 @ CHR '':'' # p2)
        = [''agent'', a, c, p1, p2]"
    using s3 split_on_segment[of "CHR '':''" "''agent''"] by simp
  then show ?thesis
    by (simp add: session_key_def)
qed

text \<open>
  Claim C5, as amended. For colon-free \<open>a\<close>, \<open>c\<close>, \<open>p1\<close> and \<open>p2\<close>, parsing
  \<open>agent:{a}:{c}:{p1}:{p2}\<close> yields channel \<open>c\<close> and peer id \<open>{p1}:{p2}\<close>, provided
  \<open>p1\<close> is not the marker \<open>direct\<close> (or the channel itself is \<open>direct\<close>).
\<close>

theorem session_key_parse:
  assumes "CHR '':'' \<notin> set a" "CHR '':'' \<notin> set c"
    and "CHR '':'' \<notin> set p1" "CHR '':'' \<notin> set p2"
    and "p1 \<noteq> ''direct'' \<or> c = ''direct''"
  shows "deriveChannel (session_key a c p1 p2) = c \<and>
         derivePeerId (session_key a c p1 p2) = p1 @ '':'' @ p2"
  using assms(5)
  by (auto simp add: deriveChannel_def derivePeerId_def split_session_key[OF assms(1-4)] Let_def)

theorem session_key_parse_witness:
  "deriveChannel (session_key ''main'' ''whatsapp'' ''+1'' ''234'') = ''whatsapp'' \<and>
   derivePeerId (session_key ''main'' ''whatsapp'' ''+1'' ''234'') = ''+1:234''"
  using session_key_parse[of "''main''" "''whatsapp''" "''+1''" "''234''"] by simp

text \<open>
  Claim C5, as stated, fails when \<open>p1\<close> is the marker \<open>direct\<close>: the key
  \<open>agent:main:telegram:direct:peer1\<close> has the peer id \<open>peer1\<close>, not \<open>direct:peer1\<close>.
\<close>

theorem session_key_parse_counterexample:
  "derivePeerId (session_key ''main'' ''telegram'' ''direct'' ''peer1'')
     \<noteq> ''direct'' @ '':'' @ ''peer1''"
  by (simp add: session_key_def derivePeerId_def Let_def)

text \<open>With the marker in the place of \<open>p1\<close>, the peer id is what follows it.\<close>

lemma session_key_parse_direct_marker:
  assumes "CHR '':'' \<notin> set a" "CHR '':'' \<notin> set c" "CHR '':'' \<notin> set p2"
    and "c \<noteq> ''direct''"
  shows "derivePeerId (session_key a c ''direct'' p2) = p2"
proof -
  have "CHR '':'' \<notin> set ''direct''" by simp
  from split_session_key[OF assms(1,2) this assms(3)] assms(4)
  show ?thesis by (simp add: derivePeerId_def Let_def)
qed

section \<open>Properties of the scope deriver\<close>

text \<open>
  Claim C4. The scope key of a resolved identity is its \<open>external_id\<close> when that is
  present, and its user id otherwise.
\<close>

theorem resolveScope_scopeKey:
  "(\<forall>e. IdentityRow.external_id identity = Some e \<longrightarrow>
       ScopeResult.scopeKey (resolveScope identity ch peer) = e) \<and>
   (IdentityRow.external_id identity = None \<longrightarrow>
       ScopeResult.scopeKey (resolveScope identity ch peer) = IdentityRow.id identity)"
  by (simp add: resolveScope_def)

theorem resolveScope_scopeKey_witness:
  "ScopeResult.scopeKey
     (resolveScope
        \<lparr> IdentityRow.id = ''uuid-123'', IdentityRow.external_id = Some ''ext-abc'',
          IdentityRow.first_name = Some ''Jane'', IdentityRow.last_name = Some ''Doe'',
          IdentityRow.channel = ''telegram'', IdentityRow.channel_peer_id = ''tg-user'',
          IdentityRow.verified = True \<rparr> ''telegram'' ''tg-user'') = ''ext-abc'' \<and>
   ScopeResult.scopeKey
     (resolveScope
        \<lparr> IdentityRow.id = ''uuid-456'', IdentityRow.external_id = None,
          IdentityRow.first_name = Some ''John'', IdentityRow.last_name = None,
          IdentityRow.channel = ''whatsapp'', IdentityRow.channel_peer_id = ''+1234567890'',
          IdentityRow.verified = False \<rparr> ''whatsapp'' ''+1234567890'') = ''uuid-456''"
  using resolveScope_scopeKey
          [of "\<lparr> IdentityRow.id = ''uuid-123'', IdentityRow.external_id = Some ''ext-abc'',
                 IdentityRow.first_name = Some ''Jane'', IdentityRow.last_name = Some ''Doe'',
                 IdentityRow.channel = ''telegram'', IdentityRow.channel_peer_id = ''tg-user'',
                 IdentityRow.verified = True \<rparr>" "''telegram''" "''tg-user''"]
        resolveScope_scopeKey
          [of "\<lparr> IdentityRow.id = ''uuid-456'', IdentityRow.external_id = None,
                 IdentityRow.first_name = Some ''John'', IdentityRow.last_name = None,
                 IdentityRow.channel = ''whatsapp'',
                 IdentityRow.channel_peer_id = ''+1234567890'',
                 IdentityRow.verified = False \<rparr>" "''whatsapp''" "''+1234567890''"]
  by simp

text \<open>
  Claim C8. When \<open>requireVerified\<close> is set and the identity is not verified, the block
  is the gated one: \<open>gated: true\<close> between the markers, followed by the gate message,
  and nothing of the scope (no \<open>scope_key\<close>, \<open>user_id\<close>, \<open>external_id\<close> or \<open>verified\<close>
  line). Otherwise it is the scope block with these four fields and \<open>gated: false\<close>.
\<close>

theorem formatScopeBlock_contract:
  "(requireVerified config = Some True \<and> \<not> ScopeResult.verified scope \<longrightarrow>
      formatScopeBlock scope config =
        ''[MEMORY_SCOPE]\<newline>gated: true\<newline>[/MEMORY_SCOPE]\<newline>\<newline>'' @
        (if truthy (map_option trim (gateMessage config))
         then trim (the (gateMessage config))
         else ''Memory retrieval is not available until identity is verified.\<newline>''
              @ ''The user can verify by typing: /verify <token>''))
   \<and> (\<not> (requireVerified config = Some True \<and> \<not> ScopeResult.verified scope) \<longrightarrow>
      formatScopeBlock scope config =
        ''[MEMORY_SCOPE]\<newline>scope_key: '' @ ScopeResult.scopeKey scope
        @ ''\<newline>user_id: '' @ ScopeResult.userId scope
        @ ''\<newline>external_id: ''
        @ (case ScopeResult.externalId scope of Some e \<Rightarrow> e | None \<Rightarrow> ''none'')
        @ ''\<newline>verified: '' @ (if ScopeResult.verified scope then ''true'' else ''false'')
        @ ''\<newline>gated: false\<newline>[/MEMORY_SCOPE]'')"
  by (cases "gateMessage config")
     (simp_all add: formatScopeBlock_def formatGatedMessage_def truthy_def show_bool_def Let_def)

theorem formatScopeBlock_contract_witness:
  "formatScopeBlock
     \<lparr> ScopeResult.userId = ''uuid-456'', ScopeResult.externalId = None,
       ScopeResult.scopeKey = ''uuid-456'', ScopeResult.verified = False,
       ScopeResult.channel = ''whatsapp'', ScopeResult.peerId = ''+1234567890'' \<rparr>
     \<lparr> requireVerified = Some True, gateMessage = None \<rparr>
   = ''[MEMORY_SCOPE]\<newline>gated: true\<newline>[/MEMORY_SCOPE]\<newline>\<newline>''
     @ ''Memory retrieval is not available until identity is verified.\<newline>''
     @ ''The user can verify by typing: /verify <token>''
   \<and>
   formatScopeBlock
     \<lparr> ScopeResult.userId = ''uuid-123'', ScopeResult.externalId = Some ''ext-abc'',
       ScopeResult.scopeKey = ''ext-abc'', ScopeResult.verified = True,
       ScopeResult.channel = ''telegram'', ScopeResult.peerId = ''tg-user'' \<rparr>
     \<lparr> requireVerified = Some True, gateMessage = None \<rparr>
   = ''[MEMORY_SCOPE]\<newline>scope_key: ext-abc\<newline>user_id: uuid-123\<newline>''
     @ ''external_id: ext-abc\<newline>verified: true\<newline>gated: false\<newline>[/MEMORY_SCOPE]''"
  using formatScopeBlock_contract
          [of "\<lparr> requireVerified = Some True, gateMessage = None \<rparr>"
              "\<lparr> ScopeResult.userId = ''uuid-456'', ScopeResult.externalId = None,
                 ScopeResult.scopeKey = ''uuid-456'', ScopeResult.verified = False,
                 ScopeResult.channel = ''whatsapp'', ScopeResult.peerId = ''+1234567890'' \<rparr>"]
        formatScopeBlock_contract
          [of "\<lparr> requireVerified = Some True, gateMessage = None \<rparr>"
              "\<lparr> ScopeResult.userId = ''uuid-123'', ScopeResult.externalId = Some ''ext-abc'',
                 ScopeResult.scopeKey = ''ext-abc'', ScopeResult.verified = True,
                 ScopeResult.channel = ''telegram'', ScopeResult.peerId = ''tg-user'' \<rparr>"]
  by (simp add: truthy_def)

section \<open>Properties of the persistence ledger\<close>

text \<open>
  Claim C1 does not hold of the code. \<open>upsertConversation\<close> adds one to
  \<open>message_count\<close> every time the session key already exists, and \<open>insertMessage\<close>
  never touches it: after two upserts and no insert the count is 1 with no message row,
  and after one upsert and one insert the count is 0 with one message row.
\<close>

theorem upsert_inflates_message_count:
  "(case ledger_run \<lparr> lp_conversations = [], lp_messages = [] \<rparr>
           [Upsert ''c-1'' 1000 demo_upsert, Upsert ''c-2'' 2000 demo_upsert] of
      Inr db \<Rightarrow> map PgSessionRow.message_count (lp_conversations db) = [1]
                \<and> messages_of db ''c-1'' = 0
    | Inl e \<Rightarrow> False)
   \<and>
   (case ledger_run \<lparr> lp_conversations = [], lp_messages = [] \<rparr>
           [Upsert ''c-1'' 1000 demo_upsert, Insert ''m-1'' 1001 demo_insert] of
      Inr db \<Rightarrow> map PgSessionRow.message_count (lp_conversations db) = [0]
                \<and> messages_of db ''c-1'' = 1
    | Inl e \<Rightarrow> False)"
  by code_simp

text \<open>\<open>insertMessage\<close> leaves every conversation row, and so every count, as it was.\<close>

lemma insertMessage_keeps_conversations:
  assumes "insertMessage db uuid now opts = Inr (db', row)"
  shows "lp_conversations db' = lp_conversations db"
proof (cases "varchar 20 (InsertOpts.role opts)")
  case (Inl e)
  with assms show ?thesis by (simp add: insertMessage_def)
next
  case (Inr r)
  with assms show ?thesis
    by (simp add: insertMessage_def Let_def split: if_splits) auto
qed

section \<open>Properties of the token verifier\<close>

lemma split_on_not_Nil: "split_on c s \<noteq> []"
  by (induction s) (auto split: list.splits)

lemma split_on_parts_no_sep: "x \<in> set (split_on c s) \<Longrightarrow> c \<notin> set x"
  by (induction s arbitrary: x) (auto split: if_splits list.splits)

lemma split_on_join: "join_with [c] (split_on c s) = s"
proof (induction s)
  case Nil
  show ?case by simp
next
  case (Cons x xs)
  show ?case
  proof (cases "x = c")
    case True
    obtain p ps where "split_on c xs = p # ps"
      using split_on_not_Nil[of c xs] by (cases "split_on c xs") auto
    with Cons True show ?thesis by simp
  next
    case False
    obtain p ps where ps: "split_on c xs = p # ps"
      using split_on_not_Nil[of c xs] by (cases "split_on c xs") auto
    with Cons False show ?thesis by (cases ps) auto
  qed
qed

lemma split_on_three:
  assumes "split_on c t = [h, p, s]"
  shows "t = h @ c # p @ c # s" and "c \<notin> set h" and "c \<notin> set p" and "c \<notin> set s"
proof -
  from split_on_join[of c t] assms show "t = h @ c # p @ c # s" by simp
  from split_on_parts_no_sep[of _ c t] assms
  show "c \<notin> set h" and "c \<notin> set p" and "c \<notin> set s" by auto
qed

lemma split_on_replace_last:
  assumes "split_on c t = [h, p, s]"
  shows "split_on c (h @ [c] @ p @ [c] @ s') = h # p # split_on c s'"
  using split_on_three(2,3)[OF assms] by (simp add: split_on_segment)

lemma verifyHS256_signature_gate:
  assumes "split_on (CHR ''.'') token = [header, payload, signature]"
    and "jwtSecret config = Some secret"
    and "base64url_decode signature \<noteq>
           base64url_decode (base64url_encode (hmac_sha256 rt secret (header @ ''.'' @ payload)))"
  shows "verifyHS256 rt token config = Inr None"
  using assms by (simp add: verifyHS256_def timingSafeEqual_def Let_def)

lemma verifyHS256_accepted_signature:
  assumes "split_on (CHR ''.'') token = [header, payload, signature]"
    and "verifyHS256 rt token config = Inr (Some v)"
  shows "\<exists>secret. jwtSecret config = Some secret \<and>
           base64url_decode signature =
             base64url_decode (base64url_encode (hmac_sha256 rt secret (header @ ''.'' @ payload)))"
proof (cases "jwtSecret config")
  case None
  with assms show ?thesis by (simp add: verifyHS256_def)
next
  case (Some secret)
  show ?thesis
  proof (rule ccontr)
    assume "\<not> ?thesis"
    with Some have "base64url_decode signature \<noteq>
           base64url_decode (base64url_encode (hmac_sha256 rt secret (header @ ''.'' @ payload)))"
      by simp
    from verifyHS256_signature_gate[OF assms(1) Some this] assms(2) show False by simp
  qed
qed

text \<open>
  Claim C6, as amended. Take a token that local verification accepts and replace its
  signature segment by any text (a change of one character included) that decodes to
  other bytes: the result is the not-verified one. Verification never returns a payload
  when the bytes of the supplied signature differ from those of the recomputed keyed
  hash.
\<close>

theorem verifyHS256_rejects_tampered_signature:
  assumes "split_on (CHR ''.'') token = [header, payload, signature]"
    and "verifyHS256 rt token config = Inr (Some v)"
    and "base64url_decode signature' \<noteq> base64url_decode signature"
  shows "verifyHS256 rt (header @ ''.'' @ payload @ ''.'' @ signature') config = Inr None"
proof -
  from verifyHS256_accepted_signature[OF assms(1,2)] obtain secret where
    sec: "jwtSecret config = Some secret" and
    ok: "base64url_decode signature =
           base64url_decode (base64url_encode (hmac_sha256 rt secret (header @ ''.'' @ payload)))"
    by blast
  have sp: "split_on (CHR ''.'') (header @ ''.'' @ payload @ ''.'' @ signature')
              = header # payload # split_on (CHR ''.'') signature'"
    using split_on_replace_last[OF assms(1)] by simp
  show ?thesis
  proof (cases "split_on (CHR ''.'') signature'")
    case Nil
    with split_on_not_Nil show ?thesis by blast
  next
    case (Cons s1 rest)
    show ?thesis
    proof (cases rest)
      case Nil
      have "s1 = signature'"
        using split_on_join[of "CHR ''.''" signature'] Cons Nil by simp
      with Cons Nil sp have sp': "split_on (CHR ''.'') (header @ ''.'' @ payload @ ''.'' @ signature')
              = [header, payload, signature']" by simp
      from assms(3) ok have "base64url_decode signature' \<noteq>
           base64url_decode (base64url_encode (hmac_sha256 rt secret (header @ ''.'' @ payload)))"
        by simp
      from verifyHS256_signature_gate[OF sp' sec this] show ?thesis .
    next
      case (Cons s2 rest')
      with \<open>split_on (CHR ''.'') signature' = s1 # rest\<close> sp
      show ?thesis by (simp add: verifyHS256_def)
    qed
  qed
qed

theorem verifyHS256_rejects_tampered_signature_witness:
  "verifyHS256 demo_runtime
     (demo_header @ ''.'' @ demo_payload_name @ ''.''
        @ ''IB7XGOHBVE3_Ya6bNltz5-dvEw0IeyWhlB6L9WufX3w'') demo_config = Inr None"
proof -
  have sp: "split_on (CHR ''.'') demo_token_name
              = [demo_header, demo_payload_name,
                 ''HB7XGOHBVE3_Ya6bNltz5-dvEw0IeyWhlB6L9WufX3w'']"
    by code_simp
  have ok: "verifyHS256 demo_runtime demo_token_name demo_config
     = Inr (Some \<lparr> VerifiedIdentity.externalId = ''ext-42'',
                   VerifiedIdentity.firstName = Some ''Ana'',
                   VerifiedIdentity.lastName = Some ''Lopez'',
                   VerifiedIdentity.email = None,
                   VerifiedIdentity.raw =
                     RawPayload (demo_claims \<lparr> name := Some ''Ana Lopez'' \<rparr>) \<rparr>)"
    by code_simp
  have ne: "base64url_decode ''IB7XGOHBVE3_Ya6bNltz5-dvEw0IeyWhlB6L9WufX3w''
              \<noteq> base64url_decode ''HB7XGOHBVE3_Ya6bNltz5-dvEw0IeyWhlB6L9WufX3w''"
    by code_simp
  from verifyHS256_rejects_tampered_signature[OF sp ok ne] show ?thesis .
qed

text \<open>
  Claim C6, as stated, fails: the 43 characters of an HS256 signature carry 258 bits, of
  which the decoder drops the last two. Changing the last character of the signature of
  an accepted token from \<open>w\<close> to \<open>x\<close> changes only those two bits, and the tampered
  token is accepted with the same identity.
\<close>

theorem verifyHS256_tamper_counterexample:
  "demo_token_tampered = demo_token_name[length demo_token_name - 1 := CHR ''x''] \<and>
   demo_token_tampered \<noteq> demo_token_name \<and>
   verifyHS256 demo_runtime demo_token_name demo_config
     = Inr (Some \<lparr> VerifiedIdentity.externalId = ''ext-42'',
                   VerifiedIdentity.firstName = Some ''Ana'',
                   VerifiedIdentity.lastName = Some ''Lopez'',
                   VerifiedIdentity.email = None,
                   VerifiedIdentity.raw = RawPayload (demo_claims \<lparr> name := Some ''Ana Lopez'' \<rparr>) \<rparr>) \<and>
   verifyHS256 demo_runtime demo_token_tampered demo_config
     = verifyHS256 demo_runtime demo_token_name demo_config"
  by code_simp

text \<open>The verifier with the token split, the signature matched and the payload parsed.\<close>

lemma verifyHS256_unfold:
  assumes "split_on (CHR ''.'') token = [header, payload, signature]"
    and "jwtSecret config = Some secret"
    and "base64url_decode signature =
           base64url_decode (base64url_encode (hmac_sha256 rt secret (header @ ''.'' @ payload)))"
    and "JSON_parse rt (base64url_decode payload) = Parsed decoded name_ok"
  shows "verifyHS256 rt token config =
     (if (\<exists>e. exp decoded = Some e \<and> e \<noteq> 0 \<and> e < Date_now rt div 1000)
      then Inr None
      else if truthy (issuer config) \<and> iss decoded \<noteq> issuer config then Inr None
      else if truthy (audience config) \<and>
              \<not> (case aud decoded of
                   Some (AudMany l) \<Rightarrow> the (audience config) \<in> set l
                 | Some (AudOne a) \<Rightarrow> a = the (audience config)
                 | None \<Rightarrow> False)
      then Inr None
      else if \<not> truthy (JWTPayload.sub decoded) then Inr None
      else if \<not> name_ok then Inl TypeError
      else Inr (Some
             \<lparr> VerifiedIdentity.externalId = the (JWTPayload.sub decoded),
               VerifiedIdentity.firstName =
                 (case given_name decoded of
                    Some g \<Rightarrow> Some g
                  | None \<Rightarrow> (case (case name decoded of
                                      None \<Rightarrow> []
                                    | Some n \<Rightarrow> split_on (CHR '' '') n) of
                              [] \<Rightarrow> None
                            | p # _ \<Rightarrow> Some p)),
               VerifiedIdentity.lastName =
                 (case family_name decoded of
                    Some f \<Rightarrow> Some f
                  | None \<Rightarrow>
                      (let l = join_with '' ''
                                 (drop 1 (case name decoded of
                                            None \<Rightarrow> []
                                          | Some n \<Rightarrow> split_on (CHR '' '') n))
                       in if l \<noteq> [] then Some l else None)),
               VerifiedIdentity.email = JWTPayload.email decoded,
               VerifiedIdentity.raw = RawPayload decoded \<rparr>))"
  using assms
  by (cases "exp decoded") (simp_all add: verifyHS256_def timingSafeEqual_def Let_def)

text \<open>
  Claim C7, as amended. Take a token that is valid but for its expiry: it has three
  segments, a secret is configured, the signature decodes to the bytes of the keyed
  hash, the payload is an object of the declared type, the issuer and the audience
  check pass and the subject is not empty. Let its \<open>exp\<close> claim be a number \<open>e\<close> other
  than 0. Then there is one identity, that of the subject, such that at every clock
  verification returns the not-verified result when \<open>e\<close> is strictly less than the
  clock in whole seconds, and that identity when it is not: the token is rejected one
  second after \<open>e\<close>, and accepted at \<open>e\<close> and one second before \<open>e\<close>.
\<close>

theorem verifyHS256_expiry_boundary:
  assumes "split_on (CHR ''.'') token = [header, payload, signature]"
    and "jwtSecret config = Some secret"
    and "base64url_decode signature =
           base64url_decode (base64url_encode (hmac_sha256 rt secret (header @ ''.'' @ payload)))"
    and "JSON_parse rt (base64url_decode payload) = Parsed decoded True"
    and "exp decoded = Some e" and "e \<noteq> 0"
    and "truthy (issuer config) \<longrightarrow> iss decoded = issuer config"
    and "truthy (audience config) \<longrightarrow>
           (case aud decoded of
              Some (AudMany l) \<Rightarrow> the (audience config) \<in> set l
            | Some (AudOne a) \<Rightarrow> a = the (audience config)
            | None \<Rightarrow> False)"
    and "truthy (JWTPayload.sub decoded)"
  shows "\<exists>v. VerifiedIdentity.externalId v = the (JWTPayload.sub decoded) \<and>
             VerifiedIdentity.raw v = RawPayload decoded \<and>
             (\<forall>now. verifyHS256 (rt\<lparr>Date_now := now\<rparr>) token config =
                      (if e < now div 1000 then Inr None else Inr (Some v))) \<and>
             (\<forall>now. now div 1000 = e + 1 \<longrightarrow>
                      verifyHS256 (rt\<lparr>Date_now := now\<rparr>) token config = Inr None) \<and>
             (\<forall>now. now div 1000 = e \<or> now div 1000 = e - 1 \<longrightarrow>
                      verifyHS256 (rt\<lparr>Date_now := now\<rparr>) token config = Inr (Some v))"
proof -
  define v where "v =
             \<lparr> VerifiedIdentity.externalId = the (JWTPayload.sub decoded),
               VerifiedIdentity.firstName =
                 (case given_name decoded of
                    Some g \<Rightarrow> Some g
                  | None \<Rightarrow> (case (case name decoded of
                                      None \<Rightarrow> []
                                    | Some n \<Rightarrow> split_on (CHR '' '') n) of
                              [] \<Rightarrow> None
                            | p # _ \<Rightarrow> Some p)),
               VerifiedIdentity.lastName =
                 (case family_name decoded of
                    Some f \<Rightarrow> Some f
                  | None \<Rightarrow>
                      (let l = join_with '' ''
                                 (drop 1 (case name decoded of
                                            None \<Rightarrow> []
                                          | Some n \<Rightarrow> split_on (CHR '' '') n))
                       in if l \<noteq> [] then Some l else None)),
               VerifiedIdentity.email = JWTPayload.email decoded,
               VerifiedIdentity.raw = RawPayload decoded \<rparr>"
  have main: "verifyHS256 (rt\<lparr>Date_now := now\<rparr>) token config =
                (if e < now div 1000 then Inr None else Inr (Some v))" for now
  proof -
    have s1: "base64url_decode signature = base64url_decode (base64url_encode
                (hmac_sha256 (rt\<lparr>Date_now := now\<rparr>) secret (header @ ''.'' @ payload)))"
      using assms(3) by simp
    have p1: "JSON_parse (rt\<lparr>Date_now := now\<rparr>) (base64url_decode payload)
                = Parsed decoded True"
      using assms(4) by simp
    show ?thesis
      unfolding verifyHS256_unfold[OF assms(1,2) s1 p1] v_def
      using assms(5-9) by auto
  qed
  have "VerifiedIdentity.externalId v = the (JWTPayload.sub decoded)"
    and "VerifiedIdentity.raw v = RawPayload decoded"
    by (simp_all add: v_def)
  moreover have "\<forall>now. now div 1000 = e + 1 \<longrightarrow>
                   verifyHS256 (rt\<lparr>Date_now := now\<rparr>) token config = Inr None"
    by (simp add: main)
  moreover have "\<forall>now. now div 1000 = e \<or> now div 1000 = e - 1 \<longrightarrow>
                   verifyHS256 (rt\<lparr>Date_now := now\<rparr>) token config = Inr (Some v)"
    by (auto simp add: main)
  ultimately show ?thesis using main by blast
qed

theorem verifyHS256_expiry_boundary_witness:
  "verifyHS256 (demo_runtime\<lparr>Date_now := 1700000001000\<rparr>) demo_token_exp demo_config = Inr None \<and>
   verifyHS256 (demo_runtime\<lparr>Date_now := 1700000000999\<rparr>) demo_token_exp demo_config
     = Inr (Some \<lparr> VerifiedIdentity.externalId = ''ext-42'',
                   VerifiedIdentity.firstName = None, VerifiedIdentity.lastName = None,
                   VerifiedIdentity.email = None,
                   VerifiedIdentity.raw = RawPayload (demo_claims \<lparr> exp := Some 1700000000 \<rparr>) \<rparr>) \<and>
   verifyHS256 (demo_runtime\<lparr>Date_now := 1699999999000\<rparr>) demo_token_exp demo_config
     = Inr (Some \<lparr> VerifiedIdentity.externalId = ''ext-42'',
                   VerifiedIdentity.firstName = None, VerifiedIdentity.lastName = None,
                   VerifiedIdentity.email = None,
                   VerifiedIdentity.raw = RawPayload (demo_claims \<lparr> exp := Some 1700000000 \<rparr>) \<rparr>)"
proof -
  have sp: "split_on (CHR ''.'') demo_token_exp
              = [demo_header, demo_payload_exp, ''pU-cF0arNUNG2z9Y6KVB95AV-IgXqdr0nEk8Gd25r9c'']"
    by code_simp
  have sec: "jwtSecret demo_config = Some ''test-secret''" by (simp add: demo_config_def)
  have sg: "base64url_decode ''pU-cF0arNUNG2z9Y6KVB95AV-IgXqdr0nEk8Gd25r9c'' =
              base64url_decode (base64url_encode
                (hmac_sha256 demo_runtime ''test-secret'' (demo_header @ ''.'' @ demo_payload_exp)))"
    by code_simp
  have js: "JSON_parse demo_runtime (base64url_decode demo_payload_exp)
              = Parsed (demo_claims \<lparr> exp := Some 1700000000 \<rparr>) True"
    by code_simp
  have ex: "exp (demo_claims \<lparr> exp := Some 1700000000 \<rparr>) = Some 1700000000" by simp
  have nz: "(1700000000::int) \<noteq> 0" by simp
  have iok: "truthy (issuer demo_config) \<longrightarrow>
               iss (demo_claims \<lparr> exp := Some 1700000000 \<rparr>) = issuer demo_config"
    by (simp add: demo_config_def truthy_def)
  have au: "truthy (audience demo_config) \<longrightarrow>
              (case aud (demo_claims \<lparr> exp := Some 1700000000 \<rparr>) of
                 Some (AudMany l) \<Rightarrow> the (audience demo_config) \<in> set l
               | Some (AudOne a) \<Rightarrow> a = the (audience demo_config)
               | None \<Rightarrow> False)"
    by (simp add: demo_config_def truthy_def)
  have sb: "truthy (JWTPayload.sub (demo_claims \<lparr> exp := Some 1700000000 \<rparr>))"
    by (simp add: demo_claims_def truthy_def)
  from verifyHS256_expiry_boundary[OF sp sec sg js ex nz iok au sb]
  obtain v where
    ext: "VerifiedIdentity.externalId v
            = the (JWTPayload.sub (demo_claims \<lparr> exp := Some 1700000000 \<rparr>))" and
    all: "\<And>now. verifyHS256 (demo_runtime\<lparr>Date_now := now\<rparr>) demo_token_exp demo_config =
                   (if 1700000000 < now div 1000 then Inr None else Inr (Some v))"
    by blast
  have ok: "verifyHS256 (demo_runtime\<lparr>Date_now := 1700000000999\<rparr>) demo_token_exp demo_config
     = Inr (Some \<lparr> VerifiedIdentity.externalId = ''ext-42'',
                   VerifiedIdentity.firstName = None, VerifiedIdentity.lastName = None,
                   VerifiedIdentity.email = None,
                   VerifiedIdentity.raw = RawPayload (demo_claims \<lparr> exp := Some 1700000000 \<rparr>) \<rparr>)"
    by code_simp
  from all[of 1700000000999] ok
  have v: "v = \<lparr> VerifiedIdentity.externalId = ''ext-42'',
                   VerifiedIdentity.firstName = None, VerifiedIdentity.lastName = None,
                   VerifiedIdentity.email = None,
                   VerifiedIdentity.raw = RawPayload (demo_claims \<lparr> exp := Some 1700000000 \<rparr>) \<rparr>"
    by simp
  from all[of 1700000001000] all[of 1700000000999] all[of 1699999999000] v
  show ?thesis by simp
qed

text \<open>
  Claim C7, as stated, fails when the clock reads one second after the epoch: the
  \<open>exp\<close> claim one second before is 0, which the expiry check treats as absent, and the
  token is accepted.
\<close>

theorem verifyHS256_expiry_counterexample:
  "(1000::int) div 1000 - 1 = 0 \<and>
   JSON_parse demo_runtime (base64url_decode demo_payload_exp0)
     = Parsed (demo_claims \<lparr> exp := Some 0 \<rparr>) True \<and>
   verifyHS256 (demo_runtime\<lparr>Date_now := 1000\<rparr>) demo_token_exp0 demo_config
     = Inr (Some \<lparr> VerifiedIdentity.externalId = ''ext-42'',
                   VerifiedIdentity.firstName = None, VerifiedIdentity.lastName = None,
                   VerifiedIdentity.email = None,
                   VerifiedIdentity.raw = RawPayload (demo_claims \<lparr> exp := Some 0 \<rparr>) \<rparr>)"
  by code_simp

text \<open>
  Claim C10. When the payload has no \<open>exp\<close> claim, or \<open>exp\<close> is 0, the result of local
  verification does not depend on the clock; and such a token with a matching signature,
  a subject claim and passing issuer and audience checks is accepted, with the subject
  as external id.
\<close>

theorem verifyHS256_skips_expiry:
  assumes "split_on (CHR ''.'') token = [header, payload, signature]"
    and "JSON_parse rt (base64url_decode payload) = Parsed decoded True"
    and "exp decoded = None \<or> exp decoded = Some 0"
  shows "verifyHS256 (rt\<lparr>Date_now := now\<rparr>) token config = verifyHS256 rt token config \<and>
         (jwtSecret config = Some secret \<and>
          base64url_decode signature =
            base64url_decode (base64url_encode (hmac_sha256 rt secret (header @ ''.'' @ payload))) \<and>
          (truthy (issuer config) \<longrightarrow> iss decoded = issuer config) \<and>
          (truthy (audience config) \<longrightarrow>
             (case aud decoded of
                Some (AudMany l) \<Rightarrow> the (audience config) \<in> set l
              | Some (AudOne a) \<Rightarrow> a = the (audience config)
              | None \<Rightarrow> False)) \<and>
          truthy (JWTPayload.sub decoded)
          \<longrightarrow> (\<exists>v. verifyHS256 rt token config = Inr (Some v) \<and>
                    VerifiedIdentity.externalId v = the (JWTPayload.sub decoded)))"
proof
  show "verifyHS256 (rt\<lparr>Date_now := now\<rparr>) token config = verifyHS256 rt token config"
  proof (cases "jwtSecret config")
    case None
    with assms(1) show ?thesis by (simp add: verifyHS256_def)
  next
    case (Some secret')
    show ?thesis
    proof (cases "base64url_decode signature =
           base64url_decode (base64url_encode (hmac_sha256 rt secret' (header @ ''.'' @ payload)))")
      case False
      with assms(1) Some show ?thesis
        by (simp add: verifyHS256_def timingSafeEqual_def Let_def)
    next
      case True
      have p1: "JSON_parse (rt\<lparr>Date_now := now\<rparr>) (base64url_decode payload) = Parsed decoded True"
        using assms(2) by simp
      have s1: "base64url_decode signature = base64url_decode (base64url_encode
                (hmac_sha256 (rt\<lparr>Date_now := now\<rparr>) secret' (header @ ''.'' @ payload)))"
        using True by simp
      show ?thesis
        unfolding verifyHS256_unfold[OF assms(1) Some True assms(2)]
                  verifyHS256_unfold[OF assms(1) Some s1 p1]
        using assms(3) by auto
    qed
  qed
next
  show "jwtSecret config = Some secret \<and>
          base64url_decode signature =
            base64url_decode (base64url_encode (hmac_sha256 rt secret (header @ ''.'' @ payload))) \<and>
          (truthy (issuer config) \<longrightarrow> iss decoded = issuer config) \<and>
          (truthy (audience config) \<longrightarrow>
             (case aud decoded of
                Some (AudMany l) \<Rightarrow> the (audience config) \<in> set l
              | Some (AudOne a) \<Rightarrow> a = the (audience config)
              | None \<Rightarrow> False)) \<and>
          truthy (JWTPayload.sub decoded)
          \<longrightarrow> (\<exists>v. verifyHS256 rt token config = Inr (Some v) \<and>
                    VerifiedIdentity.externalId v = the (JWTPayload.sub decoded))"
  proof (intro impI, elim conjE)
    assume sec: "jwtSecret config = Some secret"
      and sg: "base64url_decode signature =
            base64url_decode (base64url_encode (hmac_sha256 rt secret (header @ ''.'' @ payload)))"
      and iok: "truthy (issuer config) \<longrightarrow> iss decoded = issuer config"
      and au: "truthy (audience config) \<longrightarrow>
             (case aud decoded of
                Some (AudMany l) \<Rightarrow> the (audience config) \<in> set l
              | Some (AudOne a) \<Rightarrow> a = the (audience config)
              | None \<Rightarrow> False)"
      and sb: "truthy (JWTPayload.sub decoded)"
    show "\<exists>v. verifyHS256 rt token config = Inr (Some v) \<and>
                    VerifiedIdentity.externalId v = the (JWTPayload.sub decoded)"
      unfolding verifyHS256_unfold[OF assms(1) sec sg assms(2)]
      using assms(3) iok au sb by auto
  qed
qed

theorem verifyHS256_skips_expiry_witness:
  "verifyHS256 demo_runtime demo_token_exp0 demo_config
     = Inr (Some \<lparr> VerifiedIdentity.externalId = ''ext-42'',
                   VerifiedIdentity.firstName = None, VerifiedIdentity.lastName = None,
                   VerifiedIdentity.email = None,
                   VerifiedIdentity.raw = RawPayload (demo_claims \<lparr> exp := Some 0 \<rparr>) \<rparr>) \<and>
   verifyHS256 (demo_runtime\<lparr>Date_now := 4102444800000\<rparr>) demo_token_exp0 demo_config
     = verifyHS256 demo_runtime demo_token_exp0 demo_config"
proof -
  have sp: "split_on (CHR ''.'') demo_token_exp0
              = [demo_header, demo_payload_exp0, ''egw9DjqNcJqSxPbQNJNrQGDW1TabQ7BrkfcojKuSv2I'']"
    by code_simp
  have js: "JSON_parse demo_runtime (base64url_decode demo_payload_exp0)
              = Parsed (demo_claims \<lparr> exp := Some 0 \<rparr>) True"
    by code_simp
  have ex: "exp (demo_claims \<lparr> exp := Some 0 \<rparr>) = None \<or>
            exp (demo_claims \<lparr> exp := Some 0 \<rparr>) = Some 0" by simp
  have ok: "verifyHS256 demo_runtime demo_token_exp0 demo_config
     = Inr (Some \<lparr> VerifiedIdentity.externalId = ''ext-42'',
                   VerifiedIdentity.firstName = None, VerifiedIdentity.lastName = None,
                   VerifiedIdentity.email = None,
                   VerifiedIdentity.raw = RawPayload (demo_claims \<lparr> exp := Some 0 \<rparr>) \<rparr>)"
    by code_simp
  from verifyHS256_skips_expiry[OF sp js ex, of 4102444800000 demo_config "''test-secret''"] ok
  show ?thesis by simp
qed

section \<open>Properties of the /verify command\<close>

lemma ensureReady_sql: "sql (fst (ensureReady rt st)) = sql st"
  by (simp add: ensureReady_def)

lemma ensureReady_ok:
  "snd (ensureReady rt st) \<longleftrightarrow> schemaReady st \<or> (\<not> initError st \<and> db_reachable rt)"
  by (simp add: ensureReady_def)

lemma verifyToken_transport_failure:
  assumes "mode config = Verify_endpoint" and "truthy (verifyEndpoint config)"
    and "fetch_post rt (the (verifyEndpoint config)) token = FetchRejected"
  shows "verifyToken rt token config = Inr None"
  using assms by (simp add: verifyToken_def verifyViaEndpoint_def)

lemma verify_command_failed:
  assumes "args ctx = Some a" and "verifyToken rt (trim a) config = Inr None"
  shows "verify_command rt (Some config) ctx st =
           (if trim a = [] then (st, Reply ''Usage: /verify <authorization_token>'')
            else if snd (ensureReady rt st)
            then (fst (ensureReady rt st),
                  Reply ''Token verification failed. Please check your token and try again.'')
            else (fst (ensureReady rt st), Reply ''Identity service is temporarily unavailable.''))"
proof (cases "ensureReady rt st")
  case (Pair st1 ok)
  with assms show ?thesis
    by (cases ok) (simp_all add: verify_command_def truthy_def Let_def)
qed

lemma verify_command_thrown:
  assumes "args ctx = Some a" and "verifyToken rt (trim a) config = Inl e"
  shows "verify_command rt (Some config) ctx st =
           (if trim a = [] then (st, Reply ''Usage: /verify <authorization_token>'')
            else if snd (ensureReady rt st)
            then (fst (ensureReady rt st), Rejected)
            else (fst (ensureReady rt st), Reply ''Identity service is temporarily unavailable.''))"
proof (cases "ensureReady rt st")
  case (Pair st1 ok)
  with assms show ?thesis
    by (cases ok) (simp_all add: verify_command_def truthy_def Let_def)
qed

text \<open>
  Whatever way verification ends without an identity, by the not-verified result or by
  an exception, \<open>/verify\<close> leaves both tables as they were.
\<close>

lemma verify_command_keeps_tables:
  assumes "args ctx = Some a"
    and "\<And>v. verifyToken rt (trim a) config \<noteq> Inr (Some v)"
  shows "sql (fst (verify_command rt (Some config) ctx st)) = sql st"
proof (cases "verifyToken rt (trim a) config")
  case (Inl e)
  from verify_command_thrown[OF assms(1) Inl, of st] show ?thesis
    by (simp add: ensureReady_sql)
next
  case (Inr r)
  have "verifyToken rt (trim a) config = Inr None"
  proof (cases r)
    case None
    with Inr show ?thesis by simp
  next
    case (Some v)
    with Inr assms(2)[of v] show ?thesis by simp
  qed
  from verify_command_failed[OF assms(1) this, of st] show ?thesis
    by (simp add: ensureReady_sql)
qed

text \<open>
  The not-verified result (a transport failure or timeout of the remote endpoint is one
  way to get it) is answered with the failure message.
\<close>

lemma verify_command_reports_failure:
  assumes "args ctx = Some a" and "trim a \<noteq> []"
    and "schemaReady st \<or> (\<not> initError st \<and> db_reachable rt)"
    and "verifyToken rt (trim a) config = Inr None \<or>
         (mode config = Verify_endpoint \<and> truthy (verifyEndpoint config) \<and>
          fetch_post rt (the (verifyEndpoint config)) (trim a) = FetchRejected)"
  shows "snd (verify_command rt (Some config) ctx st) =
           Reply ''Token verification failed. Please check your token and try again.''"
proof -
  from assms(4) have "verifyToken rt (trim a) config = Inr None"
    using verifyToken_transport_failure by blast
  from verify_command_failed[OF assms(1) this, of st] assms(2,3)
  show ?thesis by (simp add: ensureReady_ok)
qed

text \<open>
  The verifier throws in two cases only, both behind a matching signature: the payload
  is \<open>null\<close>, or its \<open>name\<close> claim is not a string. The remote path never throws.
\<close>

lemma verifyToken_thrown:
  assumes "verifyToken rt token config = Inl e"
  shows "\<exists>header payload signature secret.
           mode config = Jwt_hs256 \<and> jwtSecret config = Some secret \<and>
           split_on (CHR ''.'') token = [header, payload, signature] \<and>
           base64url_decode signature =
             base64url_decode (base64url_encode (hmac_sha256 rt secret (header @ ''.'' @ payload))) \<and>
           (JSON_parse rt (base64url_decode payload) = Parsed_null \<or>
            (\<exists>decoded. JSON_parse rt (base64url_decode payload) = Parsed decoded False \<and>
                       truthy (JWTPayload.sub decoded)))"
proof -
  from assms have m: "mode config = Jwt_hs256" and t: "truthy (jwtSecret config)"
    and h: "verifyHS256 rt token config = Inl e"
    by (auto simp add: verifyToken_def split: if_splits)
  from t obtain secret where sec: "jwtSecret config = Some secret"
    by (cases "jwtSecret config") (simp_all add: truthy_def)
  from h obtain header payload signature where
    sp: "split_on (CHR ''.'') token = [header, payload, signature]"
    by (auto simp add: verifyHS256_def split: list.splits)
  have sg: "base64url_decode signature =
             base64url_decode (base64url_encode (hmac_sha256 rt secret (header @ ''.'' @ payload)))"
  proof (rule ccontr)
    assume "\<not> ?thesis"
    from verifyHS256_signature_gate[OF sp sec this] h show False by simp
  qed
  have "JSON_parse rt (base64url_decode payload) = Parsed_null \<or>
        (\<exists>decoded. JSON_parse rt (base64url_decode payload) = Parsed decoded False \<and>
                   truthy (JWTPayload.sub decoded))"
  proof (cases "JSON_parse rt (base64url_decode payload)")
    case Parse_throws
    with sp sec sg h show ?thesis
      by (simp add: verifyHS256_def timingSafeEqual_def Let_def)
  next
    case Parsed_null
    then show ?thesis by simp
  next
    case (Parsed decoded name_ok)
    from h show ?thesis
      unfolding verifyHS256_unfold[OF sp sec sg Parsed]
      using Parsed by (auto split: if_splits)
  qed
  with m sec sp sg show ?thesis by blast
qed

text \<open>
  Claim C9 does not hold of the code. The token below is signed with the configured
  secret and its payload is \<open>null\<close>: it names no subject and is not a valid token. The
  verifier passes the signature check, parses the payload and throws on reading its
  expiry claim; the handler awaits the verifier outside any \<open>try\<close>, so the command ends
  with a rejected promise and without the failure message. The tables are unchanged.
\<close>

theorem verify_null_payload_rejects:
  "demo_token_null =
     ''eyJhbGciOiJIUzI1NiIsInR5cCI6IkpXVCJ9.bnVsbA.BF4LHTey6WwVbYuKSP_kyfeB2-PZPEJYHmkdp_R92y4'' \<and>
   JSON_parse demo_runtime (base64url_decode ''bnVsbA'') = Parsed_null \<and>
   verifyToken demo_runtime demo_token_null demo_config = Inl TypeError \<and>
   verify_command demo_runtime (Some demo_config)
     (demo_ctx \<lparr> args := Some demo_token_null \<rparr>) demo_registered
     = (demo_registered, Rejected)"
  by code_simp

text \<open>
  The same happens with a signed token that names a subject and whose \<open>name\<close> claim is
  the number 42, while an unsigned text and an unreachable endpoint get the failure
  message.
\<close>

lemma verify_name_not_string_rejects:
  "verifyToken demo_runtime demo_token_name42 demo_config = Inl TypeError \<and>
   verify_command demo_runtime (Some demo_config)
     (demo_ctx \<lparr> args := Some demo_token_name42 \<rparr>) demo_registered
     = (demo_registered, Rejected)"
  by code_simp

lemma verify_failure_examples:
  "verify_command demo_runtime (Some demo_config)
     (demo_ctx \<lparr> args := Some ''bad.token.x'' \<rparr>) demo_registered
     = (demo_registered,
        Reply ''Token verification failed. Please check your token and try again.'') \<and>
   verify_command demo_runtime (Some demo_endpoint_config)
     (demo_ctx \<lparr> args := Some ''unreachable'' \<rparr>) demo_registered
     = (demo_registered,
        Reply ''Token verification failed. Please check your token and try again.'')"
  by code_simp

lemma distinct_map_filter_one:
  "distinct (map f xs) \<Longrightarrow> x \<in> set xs \<Longrightarrow> length (filter (\<lambda>y. f y = f x) xs) = 1"
proof (induction xs)
  case Nil
  then show ?case by simp
next
  case (Cons a xs)
  show ?case
  proof (cases "f a = f x")
    case True
    with Cons.prems have "\<forall>y \<in> set xs. f y \<noteq> f x" by (auto simp: image_iff)
    then have "filter (\<lambda>y. f y = f x) xs = []" by (simp add: filter_empty_conv)
    with True show ?thesis by simp
  next
    case False
    with Cons show ?thesis by auto
  qed
qed

lemma map_filter_Cons_Some: "f a = Some e \<Longrightarrow> List.map_filter f (a # xs) = e # List.map_filter f xs"
  by (simp add: List.map_filter_def)

lemma map_filter_Cons_None: "f a = None \<Longrightarrow> List.map_filter f (a # xs) = List.map_filter f xs"
  by (simp add: List.map_filter_def)

lemma set_map_filter: "set (List.map_filter f xs) = {e. \<exists>x \<in> set xs. f x = Some e}"
  by (induction xs) (auto simp add: List.map_filter_def)

lemma distinct_some_filter_one:
  "distinct (List.map_filter f xs) \<Longrightarrow> x \<in> set xs \<Longrightarrow> f x = Some e \<Longrightarrow>
     length (filter (\<lambda>y. f y = Some e) xs) = 1"
proof (induction xs)
  case Nil
  then show ?case by simp
next
  case (Cons a xs)
  show ?case
  proof (cases "f a = Some e")
    case True
    with Cons.prems(1) have "e \<notin> set (List.map_filter f xs)"
      by (simp add: map_filter_Cons_Some)
    then have "\<forall>y \<in> set xs. f y \<noteq> Some e" by (auto simp add: set_map_filter)
    then have "filter (\<lambda>y. f y = Some e) xs = []" by (simp add: filter_empty_conv)
    with True show ?thesis by simp
  next
    case False
    with Cons.prems have x: "x \<in> set xs" by auto
    have "distinct (List.map_filter f xs)"
      using Cons.prems(1) by (cases "f a") (simp_all add: map_filter_Cons_Some map_filter_Cons_None)
    from Cons.IH[OF this x Cons.prems(3)] False show ?thesis by simp
  qed
qed

lemma find_SomeD: "List.find P xs = Some x \<Longrightarrow> x \<in> set xs \<and> P x"
  by (induction xs) (auto split: if_splits)

lemma findUserByChannelPeer_SomeD:
  assumes "findUserByChannelPeer db ch peer = Some l"
  shows "\<exists>u \<in> set (lp_users db). \<exists>uc \<in> set (lp_user_channels db).
           UserChannelRow.user_id uc = UserRow.id u \<and>
           UserChannelRow.channel uc = ch \<and> UserChannelRow.channel_peer_id uc = peer \<and>
           UserRow.id l = UserRow.id u \<and>
           UserRow.external_id l = UserRow.external_id u \<and>
           UserRow.first_name l = UserRow.first_name u \<and>
           UserRow.last_name l = UserRow.last_name u"
proof -
  let ?P = "\<lambda>(u, uc). UserChannelRow.user_id uc = UserRow.id u
                        \<and> UserChannelRow.channel uc = ch
                        \<and> UserChannelRow.channel_peer_id uc = peer"
  obtain u uc where f: "List.find ?P (List.product (lp_users db) (lp_user_channels db)) = Some (u, uc)"
    using assms by (auto simp add: findUserByChannelPeer_def split: option.splits)
  from find_SomeD[OF this]
  have "(u, uc) \<in> set (List.product (lp_users db) (lp_user_channels db))" and "?P (u, uc)"
    by simp_all
  moreover have "UserRow.id l = UserRow.id u \<and>
           UserRow.external_id l = UserRow.external_id u \<and>
           UserRow.first_name l = UserRow.first_name u \<and>
           UserRow.last_name l = UserRow.last_name u"
    using assms f by (auto simp add: findUserByChannelPeer_def)
  ultimately show ?thesis by auto
qed

lemma verify_link_already:
  assumes "findUserByChannelPeer (sql st) ch peer = Some l"
    and "UserRow.external_id l = Some (VerifiedIdentity.externalId v)"
  shows "verify_link rt v ch peer st =
           (st, Reply (trim (''You're already verified as ''
                               @ or_empty (UserRow.first_name l) @ '' ''
                               @ or_empty (UserRow.last_name l) @ ''. No changes made.'')))"
  using assms by (simp add: verify_link_def)

lemma verify_command_verified:
  assumes "args ctx = Some a" and "trim a \<noteq> []"
    and "schemaReady st \<or> (\<not> initError st \<and> db_reachable rt)"
    and "verifyToken rt (trim a) config = Inr (Some v)"
  shows "verify_command rt (Some config) ctx st =
           verify_link rt v (ctx_channel ctx) (ctx_peer ctx) (fst (ensureReady rt st))"
  using assms by (auto simp add: verify_command_def truthy_def Let_def ensureReady_def)

lemma already_linked_noop:
  assumes "schema_ok (sql st)"
    and "args ctx = Some a" and "trim a \<noteq> []"
    and "schemaReady st \<or> (\<not> initError st \<and> db_reachable rt)"
    and "verifyToken rt (trim a) config = Inr (Some v)"
    and "findUserByChannelPeer (sql st) (ctx_channel ctx) (ctx_peer ctx) = Some l"
    and "UserRow.external_id l = Some (VerifiedIdentity.externalId v)"
  shows "verify_command rt (Some config) ctx st =
           (fst (ensureReady rt st),
            Reply (trim (''You're already verified as ''
                           @ or_empty (UserRow.first_name l) @ '' ''
                           @ or_empty (UserRow.last_name l) @ ''. No changes made.'')))"
    and "sql (fst (verify_command rt (Some config) ctx st)) = sql st"
    and "length (filter (\<lambda>r. UserChannelRow.channel r = ctx_channel ctx \<and>
                            UserChannelRow.channel_peer_id r = ctx_peer ctx)
                   (lp_user_channels (sql st))) = 1"
    and "length (filter (\<lambda>u. UserRow.external_id u = Some (VerifiedIdentity.externalId v))
                   (lp_users (sql st))) = 1"
proof -
  have l': "findUserByChannelPeer (sql (fst (ensureReady rt st))) (ctx_channel ctx) (ctx_peer ctx)
              = Some l"
    using assms(6) by (simp add: ensureReady_sql)
  show c1: "verify_command rt (Some config) ctx st =
           (fst (ensureReady rt st),
            Reply (trim (''You're already verified as ''
                           @ or_empty (UserRow.first_name l) @ '' ''
                           @ or_empty (UserRow.last_name l) @ ''. No changes made.'')))"
    unfolding verify_command_verified[OF assms(2,3,4,5)]
    by (rule verify_link_already[OF l' assms(7)])
  show "sql (fst (verify_command rt (Some config) ctx st)) = sql st"
    unfolding c1 by (simp add: ensureReady_sql)
  from findUserByChannelPeer_SomeD[OF assms(6)] obtain u uc where
    u: "u \<in> set (lp_users (sql st))" and uc: "uc \<in> set (lp_user_channels (sql st))"
    and key: "UserChannelRow.channel uc = ctx_channel ctx"
             "UserChannelRow.channel_peer_id uc = ctx_peer ctx"
    and ext: "UserRow.external_id l = UserRow.external_id u"
    by blast
  have d1: "distinct (map (\<lambda>r. (UserChannelRow.channel r, UserChannelRow.channel_peer_id r))
                   (lp_user_channels (sql st)))"
    and d2: "distinct (List.map_filter UserRow.external_id (lp_users (sql st)))"
    using assms(1) by (simp_all add: schema_ok_def)
  from distinct_map_filter_one[OF d1 uc] key
  show "length (filter (\<lambda>r. UserChannelRow.channel r = ctx_channel ctx \<and>
                            UserChannelRow.channel_peer_id r = ctx_peer ctx)
                   (lp_user_channels (sql st))) = 1"
    by simp
  have "UserRow.external_id u = Some (VerifiedIdentity.externalId v)"
    using ext assms(7) by simp
  from distinct_some_filter_one[OF d2 u this]
  show "length (filter (\<lambda>u. UserRow.external_id u = Some (VerifiedIdentity.externalId v))
                   (lp_users (sql st))) = 1"
    by simp
qed

lemma ensureReady_success:
  assumes "schemaReady st \<or> (\<not> initError st \<and> db_reachable rt)"
  shows "fst (ensureReady rt st) = st \<lparr> schemaReady := True \<rparr>"
  using assms by (cases "schemaReady st") (simp_all add: ensureReady_def)

text \<open>
  Claim C3. In a database that satisfies the constraints of the schema, take a peer
  that is linked to the user owning the external id of a valid token. \<open>/verify\<close> with
  that token replies "You're already verified as ... No changes made." and leaves both
  tables as they are (the state changes in nothing but the \<open>schemaReady\<close> flag, which is
  set if it was not); the peer has exactly one link row and the external id exactly one
  user row.
\<close>

theorem verify_already_linked_noop:
  assumes "schema_ok (sql st)"
    and "args ctx = Some a" and "trim a \<noteq> []"
    and "schemaReady st \<or> (\<not> initError st \<and> db_reachable rt)"
    and "verifyToken rt (trim a) config = Inr (Some v)"
    and "findUserByChannelPeer (sql st) (ctx_channel ctx) (ctx_peer ctx) = Some l"
    and "UserRow.external_id l = Some (VerifiedIdentity.externalId v)"
  shows "verify_command rt (Some config) ctx st =
           (st \<lparr> schemaReady := True \<rparr>,
            Reply (trim (''You're already verified as ''
                           @ or_empty (UserRow.first_name l) @ '' ''
                           @ or_empty (UserRow.last_name l) @ ''. No changes made.''))) \<and>
         sql (fst (verify_command rt (Some config) ctx st)) = sql st \<and>
         length (filter (\<lambda>r. UserChannelRow.channel r = ctx_channel ctx \<and>
                            UserChannelRow.channel_peer_id r = ctx_peer ctx)
                   (lp_user_channels (sql st))) = 1 \<and>
         length (filter (\<lambda>u. UserRow.external_id u = Some (VerifiedIdentity.externalId v))
                   (lp_users (sql st))) = 1"
proof (intro conjI)
  note n = already_linked_noop[OF assms]
  show "verify_command rt (Some config) ctx st =
           (st \<lparr> schemaReady := True \<rparr>,
            Reply (trim (''You're already verified as ''
                           @ or_empty (UserRow.first_name l) @ '' ''
                           @ or_empty (UserRow.last_name l) @ ''. No changes made.'')))"
    using n(1) unfolding ensureReady_success[OF assms(4)] .
  show "sql (fst (verify_command rt (Some config) ctx st)) = sql st" by (rule n(2))
  show "length (filter (\<lambda>r. UserChannelRow.channel r = ctx_channel ctx \<and>
                            UserChannelRow.channel_peer_id r = ctx_peer ctx)
                   (lp_user_channels (sql st))) = 1" by (rule n(3))
  show "length (filter (\<lambda>u. UserRow.external_id u = Some (VerifiedIdentity.externalId v))
                   (lp_users (sql st))) = 1" by (rule n(4))
qed

theorem verify_already_linked_noop_witness:
  "verify_command demo_runtime (Some demo_config) demo_ctx demo_verified =
     (demo_verified, Reply ''You're already verified as Ana Lopez. No changes made.'') \<and>
   length (filter (\<lambda>r. UserChannelRow.channel r = ''whatsapp'' \<and>
                        UserChannelRow.channel_peer_id r = ''+15551230000'')
             (lp_user_channels (sql demo_verified))) = 1 \<and>
   length (filter (\<lambda>u. UserRow.external_id u = Some ''ext-42'')
             (lp_users (sql demo_verified))) = 1"
proof -
  let ?l = "\<lparr> UserRow.id = ''00000000-0000-4000-8000-00000000000a'',
              UserRow.external_id = Some ''ext-42'',
              UserRow.first_name = Some ''Ana'', UserRow.last_name = Some ''Lopez'',
              UserRow.created_at = 1767225600000, UserRow.updated_at = 1767225600000,
              ResolvedIdentity.channel = ''whatsapp'',
              ResolvedIdentity.channel_peer_id = ''+15551230000'',
              ResolvedIdentity.verified = True \<rparr>"
  have h1: "schema_ok (sql demo_verified)" by code_simp
  have h2: "args demo_ctx = Some demo_token_name" by (simp add: demo_ctx_def)
  have tr: "trim demo_token_name = demo_token_name" by code_simp
  have h3: "trim demo_token_name \<noteq> []" by code_simp
  have h4: "schemaReady demo_verified \<or> (\<not> initError demo_verified \<and> db_reachable demo_runtime)"
    by (simp add: demo_verified_def)
  have h5: "verifyToken demo_runtime (trim demo_token_name) demo_config = Inr (Some demo_identity)"
    by code_simp
  have h6: "findUserByChannelPeer (sql demo_verified) (ctx_channel demo_ctx) (ctx_peer demo_ctx)
              = Some ?l"
    by code_simp
  have h7: "UserRow.external_id ?l = Some (VerifiedIdentity.externalId demo_identity)"
    by (simp add: demo_identity_def)
  have e1: "demo_verified \<lparr> schemaReady := True \<rparr> = demo_verified"
    by (simp add: demo_verified_def)
  have e2: "trim (''You're already verified as '' @ or_empty (UserRow.first_name ?l) @ '' ''
                    @ or_empty (UserRow.last_name ?l) @ ''. No changes made.'')
              = ''You're already verified as Ana Lopez. No changes made.''"
    by code_simp
  have e3: "ctx_channel demo_ctx = ''whatsapp''" and e4: "ctx_peer demo_ctx = ''+15551230000''"
    by code_simp+
  have e5: "VerifiedIdentity.externalId demo_identity = ''ext-42''"
    by (simp add: demo_identity_def)
  from verify_already_linked_noop[OF h1 h2 h3 h4 h5 h6 h7]
  show ?thesis unfolding e1 e2 e3 e4 e5 by blast
qed

text \<open>
  A first \<open>/verify\<close> that replies establishes that situation, so that a second one with
  the same token is the no-op: two calls in a row leave one link row for the peer and
  one user row for the external id. The channel, the peer id and the external id are
  taken to fit their columns.
\<close>

lemma varchar_fits: "length s \<le> n \<Longrightarrow> varchar n s = Inr s"
  by (simp add: varchar_def)

lemma map_filter_append:
  "List.map_filter f (xs @ ys) = List.map_filter f xs @ List.map_filter f ys"
  by (simp add: List.map_filter_def)

lemma createUser_schema:
  assumes "createUser db uuid now opts = Inr (db', row)"
    and "schema_ok db"
    and "CreateUserOpts.externalId opts = Some ext" and "length ext \<le> 256"
  shows "schema_ok db'" and "row \<in> set (lp_users db')"
    and "UserRow.external_id row = Some ext"
    and "lp_user_channels db' = lp_user_channels db"
    and "lp_users db' = lp_users db @ [row]"
proof -
  obtain fn where fn: "varchar_opt 128 (CreateUserOpts.firstName opts) = Inr fn"
    using assms(1) by (cases "varchar_opt 128 (CreateUserOpts.firstName opts)")
                      (simp_all add: createUser_def)
  obtain ln where ln: "varchar_opt 128 (CreateUserOpts.lastName opts) = Inr ln"
    using assms(1) fn by (cases "varchar_opt 128 (CreateUserOpts.lastName opts)")
                      (simp_all add: createUser_def)
  have ex: "varchar_opt 256 (CreateUserOpts.externalId opts) = Inr (Some ext)"
    using assms(3,4) by (simp add: varchar_opt_def varchar_fits)
  have fresh: "uuid \<notin> UserRow.id ` set (lp_users db)"
    and uniq: "Some ext \<notin> UserRow.external_id ` set (lp_users db)"
    and row: "row = \<lparr> UserRow.id = uuid, UserRow.external_id = Some ext,
                      UserRow.first_name = fn, UserRow.last_name = ln,
                      UserRow.created_at = now, UserRow.updated_at = now \<rparr>"
    and db': "db' = db \<lparr> lp_users := lp_users db @ [row] \<rparr>"
    using assms(1) fn ln ex
    by (auto simp add: createUser_def Let_def split: if_splits)
  show "lp_users db' = lp_users db @ [row]" using db' by simp
  show "row \<in> set (lp_users db')" using db' by simp
  show "UserRow.external_id row = Some ext" using row by simp
  show "lp_user_channels db' = lp_user_channels db" using db' by simp
  have "ext \<notin> set (List.map_filter UserRow.external_id (lp_users db))"
    using uniq by (auto simp add: set_map_filter image_iff)
  moreover have "List.map_filter UserRow.external_id [row] = [ext]"
    using row by (simp add: List.map_filter_def)
  moreover have "UserRow.id row = uuid" using row by simp
  ultimately show "schema_ok db'"
    using assms(2) fresh db'
    by (auto simp add: schema_ok_def map_filter_append)
qed

lemma find_NoneD: "List.find P xs = None \<Longrightarrow> x \<in> set xs \<Longrightarrow> \<not> P x"
  by (induction xs) (auto split: if_splits)

lemma linkChannelToUser_schema:
  assumes "linkChannelToUser db uuid now uid ch peer = Inr (db', row)"
    and "schema_ok db" and "length ch \<le> 50" and "length peer \<le> 512"
  shows "schema_ok db'" and "lp_users db' = lp_users db"
    and "\<exists>r \<in> set (lp_user_channels db').
           (UserChannelRow.channel r = ch \<and> UserChannelRow.channel_peer_id r = peer) \<and>
           UserChannelRow.user_id r = uid"
proof -
  let ?key = "\<lambda>r. (UserChannelRow.channel r, UserChannelRow.channel_peer_id r)"
  let ?P = "\<lambda>r. UserChannelRow.channel r = ch \<and> UserChannelRow.channel_peer_id r = peer"
  have vc: "varchar 50 ch = Inr ch" and vp: "varchar 512 peer = Inr peer"
    using assms(3,4) by (simp_all add: varchar_fits)
  have fk: "uid \<in> UserRow.id ` set (lp_users db)"
    using assms(1) vc vp by (auto simp add: linkChannelToUser_def split: if_splits)
  have dk: "distinct (map ?key (lp_user_channels db))"
    and di: "distinct (map UserChannelRow.id (lp_user_channels db))"
    and du: "distinct (map UserRow.id (lp_users db))"
    and de: "distinct (List.map_filter UserRow.external_id (lp_users db))"
    and fks: "\<forall>r \<in> set (lp_user_channels db).
                UserChannelRow.user_id r \<in> UserRow.id ` set (lp_users db)"
    using assms(2) by (simp_all add: schema_ok_def)
  show "schema_ok db'" and "lp_users db' = lp_users db"
    and "\<exists>r \<in> set (lp_user_channels db'). ?P r \<and> UserChannelRow.user_id r = uid"
  proof (atomize (full), cases "List.find ?P (lp_user_channels db)")
    case None
    then have nokey: "\<forall>r \<in> set (lp_user_channels db). ?key r \<noteq> (ch, peer)"
      using find_NoneD[of ?P "lp_user_channels db"] by auto
    from assms(1) vc vp fk None
    have fresh: "uuid \<notin> UserChannelRow.id ` set (lp_user_channels db)"
      and db': "db' = db \<lparr> lp_user_channels := lp_user_channels db @
                 [\<lparr> UserChannelRow.id = uuid, UserChannelRow.user_id = uid,
                    UserChannelRow.channel = ch, UserChannelRow.channel_peer_id = peer,
                    UserChannelRow.linked_at = now \<rparr>] \<rparr>"
      by (auto simp add: linkChannelToUser_def Let_def split: if_splits)
    have "(ch, peer) \<notin> ?key ` set (lp_user_channels db)"
      using nokey by (auto simp add: image_iff)
    with dk di du de fks fk fresh db'
    show "schema_ok db' \<and> lp_users db' = lp_users db \<and>
          (\<exists>r \<in> set (lp_user_channels db'). ?P r \<and> UserChannelRow.user_id r = uid)"
      by (auto simp add: schema_ok_def)
  next
    case (Some old)
    from find_SomeD[OF Some] have old: "old \<in> set (lp_user_channels db)" and pold: "?P old"
      by simp_all
    let ?new = "old \<lparr> UserChannelRow.user_id := uid, UserChannelRow.linked_at := now \<rparr>"
    let ?f = "\<lambda>r. if ?P r then ?new else r"
    from assms(1) vc vp fk Some
    have db': "db' = db \<lparr> lp_user_channels := map ?f (lp_user_channels db) \<rparr>"
      by (auto simp add: linkChannelToUser_def Let_def split: if_splits)
    have only: "\<And>r. r \<in> set (lp_user_channels db) \<Longrightarrow> ?P r \<Longrightarrow> r = old"
    proof -
      fix r assume "r \<in> set (lp_user_channels db)" and "?P r"
      with old pold have "?key r = ?key old" by simp
      with dk \<open>r \<in> set (lp_user_channels db)\<close> old show "r = old"
        by (auto simp add: distinct_map inj_on_def)
    qed
    have keys: "map ?key (map ?f (lp_user_channels db)) = map ?key (lp_user_channels db)"
      using pold by (auto simp add: comp_def)
    have ids: "map UserChannelRow.id (map ?f (lp_user_channels db))
                 = map UserChannelRow.id (lp_user_channels db)"
      using only by (auto simp add: comp_def)
    have fk': "\<forall>r \<in> set (map ?f (lp_user_channels db)).
                UserChannelRow.user_id r \<in> UserRow.id ` set (lp_users db)"
      using fks fk by auto
    have ex: "?new \<in> set (map ?f (lp_user_channels db))"
      using old pold by (auto simp add: image_iff intro!: bexI[of _ old])
    have pnew: "?P ?new \<and> UserChannelRow.user_id ?new = uid" using pold by simp
    have lc: "lp_user_channels db' = map ?f (lp_user_channels db)"
      and lu: "lp_users db' = lp_users db"
      using db' by simp_all
    have "schema_ok db'"
      unfolding schema_ok_def lc lu keys ids
      using dk di du de fk' by (intro conjI)
    moreover note lu
    moreover have "\<exists>r \<in> set (lp_user_channels db'). ?P r \<and> UserChannelRow.user_id r = uid"
    proof (rule bexI[of _ ?new])
      show "?P ?new \<and> UserChannelRow.user_id ?new = uid" by (rule pnew)
      show "?new \<in> set (lp_user_channels db')" unfolding lc by (rule ex)
    qed
    ultimately show "schema_ok db' \<and> lp_users db' = lp_users db \<and>
          (\<exists>r \<in> set (lp_user_channels db'). ?P r \<and> UserChannelRow.user_id r = uid)"
      by blast
  qed
qed

lemma distinct_some_inj:
  "distinct (List.map_filter f xs) \<Longrightarrow> x \<in> set xs \<Longrightarrow> y \<in> set xs \<Longrightarrow>
     f x = Some e \<Longrightarrow> f y = Some e \<Longrightarrow> x = y"
proof (induction xs)
  case Nil
  then show ?case by simp
next
  case (Cons a xs)
  show ?case
  proof (cases "f a = Some e")
    case True
    with Cons.prems(1) have "e \<notin> set (List.map_filter f xs)"
      by (simp add: map_filter_Cons_Some)
    then have "\<forall>z \<in> set xs. f z \<noteq> Some e" by (auto simp add: set_map_filter)
    with Cons.prems show ?thesis by auto
  next
    case False
    have "distinct (List.map_filter f xs)"
      using Cons.prems(1) by (cases "f a") (simp_all add: map_filter_Cons_Some map_filter_Cons_None)
    with Cons False show ?thesis by auto
  qed
qed

lemma find_exists: "x \<in> set xs \<Longrightarrow> P x \<Longrightarrow> \<exists>y. List.find P xs = Some y"
  by (induction xs) auto

lemma findUserByExternalId_unique:
  assumes "schema_ok db" and "u \<in> set (lp_users db)" and "UserRow.external_id u = Some ext"
  shows "findUserByExternalId db ext = Some u"
proof -
  from find_exists[of u "lp_users db" "\<lambda>u. UserRow.external_id u = Some ext"] assms(2,3)
  obtain u' where f: "findUserByExternalId db ext = Some u'"
    by (auto simp add: findUserByExternalId_def)
  then have "u' \<in> set (lp_users db)" and "UserRow.external_id u' = Some ext"
    using find_SomeD[of "\<lambda>u. UserRow.external_id u = Some ext" "lp_users db" u']
    by (simp_all add: findUserByExternalId_def)
  moreover have "distinct (List.map_filter UserRow.external_id (lp_users db))"
    using assms(1) by (simp add: schema_ok_def)
  ultimately have "u' = u"
    using distinct_some_inj[of UserRow.external_id "lp_users db" u' u ext] assms(2,3) by blast
  with f show ?thesis by simp
qed

lemma findUserByChannelPeer_linked:
  assumes "schema_ok db" and "u \<in> set (lp_users db)" and "r \<in> set (lp_user_channels db)"
    and "UserChannelRow.channel r = ch" and "UserChannelRow.channel_peer_id r = peer"
    and "UserChannelRow.user_id r = UserRow.id u"
  shows "\<exists>l. findUserByChannelPeer db ch peer = Some l \<and>
              UserRow.external_id l = UserRow.external_id u"
proof -
  let ?P = "\<lambda>(u, uc). UserChannelRow.user_id uc = UserRow.id u
                        \<and> UserChannelRow.channel uc = ch
                        \<and> UserChannelRow.channel_peer_id uc = peer"
  have "(u, r) \<in> set (List.product (lp_users db) (lp_user_channels db))" and "?P (u, r)"
    using assms(2-6) by simp_all
  from find_exists[of "(u, r)" "List.product (lp_users db) (lp_user_channels db)" ?P, OF this]
  obtain u' r' where
    f: "List.find ?P (List.product (lp_users db) (lp_user_channels db)) = Some (u', r')"
    by auto
  from find_SomeD[OF f] have u': "u' \<in> set (lp_users db)" and r': "r' \<in> set (lp_user_channels db)"
    and p: "UserChannelRow.user_id r' = UserRow.id u'" "UserChannelRow.channel r' = ch"
           "UserChannelRow.channel_peer_id r' = peer"
    by simp_all
  have dk: "distinct (map (\<lambda>r. (UserChannelRow.channel r, UserChannelRow.channel_peer_id r))
                   (lp_user_channels db))"
    and du: "distinct (map UserRow.id (lp_users db))"
    using assms(1) by (simp_all add: schema_ok_def)
  have "r' = r"
    using dk r' assms(3,4,5) p(2,3) by (auto simp add: distinct_map inj_on_def)
  with p(1) assms(6) have "UserRow.id u' = UserRow.id u" by simp
  with du u' assms(2) have "u' = u" by (auto simp add: distinct_map inj_on_def)
  with f show ?thesis by (simp add: findUserByChannelPeer_def)
qed

lemma linkExternalId_existing:
  assumes "linkExternalId db uuid now uid ext ch peer = Inr (db', x)"
    and "schema_ok db" and "u \<in> set (lp_users db)" and "UserRow.external_id u = Some ext"
    and "length ch \<le> 50" and "length peer \<le> 512"
  shows "schema_ok db'" and "lp_users db' = lp_users db"
    and "\<exists>r \<in> set (lp_user_channels db').
           (UserChannelRow.channel r = ch \<and> UserChannelRow.channel_peer_id r = peer) \<and>
           UserChannelRow.user_id r = UserRow.id u"
proof -
  have f: "findUserByExternalId db ext = Some u"
    by (rule findUserByExternalId_unique[OF assms(2,3,4)])
  obtain row where l: "linkChannelToUser db uuid now (UserRow.id u) ch peer = Inr (db', row)"
    using assms(1) f
    by (cases "linkChannelToUser db uuid now (UserRow.id u) ch peer")
       (auto simp add: linkExternalId_def)
  from linkChannelToUser_schema[OF l assms(2,5,6)]
  show "schema_ok db'" and "lp_users db' = lp_users db"
    and "\<exists>r \<in> set (lp_user_channels db').
           (UserChannelRow.channel r = ch \<and> UserChannelRow.channel_peer_id r = peer) \<and>
           UserChannelRow.user_id r = UserRow.id u"
    by simp_all
qed

lemma verify_link_establishes:
  assumes "verify_link rt v ch peer st = (st', Reply text)"
    and "schema_ok (sql st)"
    and "length ch \<le> 50" and "length peer \<le> 512"
    and "length (VerifiedIdentity.externalId v) \<le> 256"
  shows "schema_ok (sql st') \<and> schemaReady st' = schemaReady st \<and>
         initError st' = initError st \<and>
         (\<exists>l. findUserByChannelPeer (sql st') ch peer = Some l \<and>
              UserRow.external_id l = Some (VerifiedIdentity.externalId v)) \<and>
         (\<exists>new. lp_users (sql st') =
                  lp_users (sql st) @
                    (if findUserByExternalId (sql st) (VerifiedIdentity.externalId v) = None
                     then [new] else []) \<and>
                UserRow.external_id new = Some (VerifiedIdentity.externalId v))"
proof -
  let ?ext = "VerifiedIdentity.externalId v"
  let ?el = "findUserByChannelPeer (sql st) ch peer"
  show ?thesis
  proof (cases "case ?el of Some l \<Rightarrow> UserRow.external_id l = Some ?ext | None \<Rightarrow> False")
    case True
    then obtain l where l: "?el = Some l" "UserRow.external_id l = Some ?ext"
      by (cases ?el) auto
    from verify_link_already[OF l, of rt] assms(1) have st': "st' = st" by simp
    from findUserByChannelPeer_SomeD[OF l(1)] l(2) obtain u where
      "u \<in> set (lp_users (sql st))" and "UserRow.external_id u = Some ?ext"
      by auto
    note u = this
    from find_exists[of u "lp_users (sql st)" "\<lambda>u. UserRow.external_id u = Some ?ext", OF u]
    have "findUserByExternalId (sql st) ?ext \<noteq> None"
      by (auto simp add: findUserByExternalId_def)
    then have "lp_users (sql st') =
                  lp_users (sql st) @
                    (if findUserByExternalId (sql st) ?ext = None then [u] else []) \<and>
                UserRow.external_id u = Some ?ext"
      using u(2) st' by simp
    note this_u = this
    have "\<exists>new. lp_users (sql st') =
                  lp_users (sql st) @
                    (if findUserByExternalId (sql st) ?ext = None then [new] else []) \<and>
                UserRow.external_id new = Some ?ext"
      by (rule exI, rule this_u)
    note nw = this
    show ?thesis
    proof (intro conjI)
      show "schema_ok (sql st')" using assms(2) st' by simp
      show "schemaReady st' = schemaReady st" using st' by simp
      show "initError st' = initError st" using st' by simp
      show "\<exists>l. findUserByChannelPeer (sql st') ch peer = Some l \<and>
              UserRow.external_id l = Some ?ext"
        using l st' by simp
      show "\<exists>new. lp_users (sql st') =
                  lp_users (sql st) @
                    (if findUserByExternalId (sql st) ?ext = None then [new] else []) \<and>
                UserRow.external_id new = Some ?ext"
        by (rule nw)
    qed
  next
    case False
    let ?find = "(case findUserByExternalId (sql st) ?ext of
                    Some u \<Rightarrow> Inr (sql st, u)
                  | None \<Rightarrow>
                      createUser (sql st) (gen_random_uuid rt 0) (sql_now rt 0)
                        \<lparr> CreateUserOpts.firstName = VerifiedIdentity.firstName v,
                          CreateUserOpts.lastName = VerifiedIdentity.lastName v,
                          CreateUserOpts.externalId = Some ?ext \<rparr>)"
    obtain db1 user where s1: "?find = Inr (db1, user)"
      using assms(1) False by (cases ?find) (auto simp add: verify_link_def)
    have u1: "schema_ok db1 \<and> user \<in> set (lp_users db1) \<and> UserRow.external_id user = Some ?ext
              \<and> lp_users db1 = lp_users (sql st) @
                    (if findUserByExternalId (sql st) ?ext = None then [user] else [])"
    proof (cases "findUserByExternalId (sql st) ?ext")
      case None
      with s1 have c: "createUser (sql st) (gen_random_uuid rt 0) (sql_now rt 0)
                        \<lparr> CreateUserOpts.firstName = VerifiedIdentity.firstName v,
                          CreateUserOpts.lastName = VerifiedIdentity.lastName v,
                          CreateUserOpts.externalId = Some ?ext \<rparr> = Inr (db1, user)"
        by simp
      from createUser_schema(1,2,3,5)[OF c assms(2) _ assms(5)] None show ?thesis by simp
    next
      case (Some u)
      with s1 have "db1 = sql st" and "user = u" by simp_all
      moreover from find_SomeD[of "\<lambda>u. UserRow.external_id u = Some ?ext" "lp_users (sql st)" u] Some
      have "u \<in> set (lp_users (sql st))" and "UserRow.external_id u = Some ?ext"
        by (simp_all add: findUserByExternalId_def)
      ultimately show ?thesis using assms(2) Some by simp
    qed
    from u1 have u1a: "schema_ok db1" and u1b: "user \<in> set (lp_users db1)"
      and u1c: "UserRow.external_id user = Some ?ext"
      and u1d: "lp_users db1 = lp_users (sql st) @
                    (if findUserByExternalId (sql st) ?ext = None then [user] else [])"
      by blast+
    let ?link = "linkChannelToUser db1 (gen_random_uuid rt 1) (sql_now rt 1) (UserRow.id user) ch peer"
    obtain db2 row where s2: "?link = Inr (db2, row)"
      using assms(1) False s1 by (cases ?link) (auto simp add: verify_link_def)
    note k2 = linkChannelToUser_schema[OF s2 _ assms(3,4)]
    have u2: "schema_ok db2" and us2: "lp_users db2 = lp_users db1"
      and r2: "\<exists>r \<in> set (lp_user_channels db2).
           (UserChannelRow.channel r = ch \<and> UserChannelRow.channel_peer_id r = peer) \<and>
           UserChannelRow.user_id r = UserRow.id user"
      using k2 u1a by simp_all
    let ?merge = "(if (case ?el of Some l \<Rightarrow> \<not> truthy (UserRow.external_id l) | None \<Rightarrow> False)
                   then (case linkExternalId db2 (gen_random_uuid rt 2) (sql_now rt 2)
                               (UserRow.id (the ?el)) ?ext ch peer of
                          Inl e \<Rightarrow> Inl e
                        | Inr (db', _) \<Rightarrow> Inr db')
                   else Inr db2)"
    obtain db3 where s3: "?merge = Inr db3"
      using assms(1) False s1 s2 by (cases ?merge) (auto simp add: verify_link_def)
    have st': "st' = st \<lparr> sql := db3 \<rparr>"
      using assms(1) False s1 s2 s3 by (auto simp add: verify_link_def Let_def)
    have u3: "schema_ok db3 \<and> lp_users db3 = lp_users db2 \<and>
              (\<exists>r \<in> set (lp_user_channels db3).
                 (UserChannelRow.channel r = ch \<and> UserChannelRow.channel_peer_id r = peer) \<and>
                 UserChannelRow.user_id r = UserRow.id user)"
    proof (cases "case ?el of Some l \<Rightarrow> \<not> truthy (UserRow.external_id l) | None \<Rightarrow> False")
      case False
      with s3 have "db3 = db2" by simp
      with u2 r2 show ?thesis by simp
    next
      case True
      with s3 obtain x where le: "linkExternalId db2 (gen_random_uuid rt 2) (sql_now rt 2)
                               (UserRow.id (the ?el)) ?ext ch peer = Inr (db3, x)"
        by (cases "linkExternalId db2 (gen_random_uuid rt 2) (sql_now rt 2)
                               (UserRow.id (the ?el)) ?ext ch peer") auto
      have "user \<in> set (lp_users db2)" using u1b us2 by simp
      from linkExternalId_existing[OF le u2 this u1c assms(3,4)]
      show ?thesis by simp
    qed
    then obtain r where r: "r \<in> set (lp_user_channels db3)"
      "UserChannelRow.channel r = ch" "UserChannelRow.channel_peer_id r = peer"
      "UserChannelRow.user_id r = UserRow.id user"
      by blast
    from u3 have u3a: "schema_ok db3" and u3b: "lp_users db3 = lp_users db2" by blast+
    have "user \<in> set (lp_users db3)" using u1b us2 u3b by simp
    from findUserByChannelPeer_linked[OF u3a this r] u1c
    have fl: "\<exists>l. findUserByChannelPeer db3 ch peer = Some l \<and> UserRow.external_id l = Some ?ext"
      by simp
    have "lp_users db3 = lp_users (sql st) @
                    (if findUserByExternalId (sql st) ?ext = None then [user] else [])"
      using u1d us2 u3b by simp
    with u1c have "lp_users db3 = lp_users (sql st) @
                    (if findUserByExternalId (sql st) ?ext = None then [user] else []) \<and>
                UserRow.external_id user = Some ?ext"
      by (rule_tac conjI)
    note this_user = this
    have nw: "\<exists>new. lp_users db3 = lp_users (sql st) @
                    (if findUserByExternalId (sql st) ?ext = None then [new] else []) \<and>
                UserRow.external_id new = Some ?ext"
      by (rule exI, rule this_user)
    have e3: "sql st' = db3" using st' by simp
    show ?thesis
    proof (intro conjI)
      show "schema_ok (sql st')" unfolding e3 by (rule u3a)
      show "schemaReady st' = schemaReady st" using st' by simp
      show "initError st' = initError st" using st' by simp
      show "\<exists>l. findUserByChannelPeer (sql st') ch peer = Some l \<and>
              UserRow.external_id l = Some ?ext"
        unfolding e3 by (rule fl)
      show "\<exists>new. lp_users (sql st') =
                  lp_users (sql st) @
                    (if findUserByExternalId (sql st) ?ext = None then [new] else []) \<and>
                UserRow.external_id new = Some ?ext"
        unfolding e3 by (rule nw)
    qed
  qed
qed

lemma verify_command_Reply_link:
  assumes "args ctx = Some a" and "trim a \<noteq> []"
    and "schemaReady st \<or> (\<not> initError st \<and> db_reachable rt)"
    and "verifyToken rt (trim a) config = Inr (Some v)"
    and "verify_command rt (Some config) ctx st = (st1, Reply text)"
  shows "verify_link rt v (ctx_channel ctx) (ctx_peer ctx) (fst (ensureReady rt st)) = (st1, Reply text)"
  using assms(5) unfolding verify_command_verified[OF assms(1,2,3,4)] .

lemma ensureReady_sets_flag: assumes "schemaReady st \<or> (\<not> initError st \<and> db_reachable rt)"
  shows "schemaReady (fst (ensureReady rt st))"
  using assms by (auto simp add: ensureReady_def)

lemma ensureReady_when_ready: "schemaReady st1 \<Longrightarrow> fst (ensureReady rt' st1) = st1"
  by (simp add: ensureReady_def)


lemma verify_command_twice:
  assumes "schema_ok (sql st)"
    and "args ctx = Some a" and "trim a \<noteq> []"
    and "schemaReady st \<or> (\<not> initError st \<and> db_reachable rt)"
    and "verifyToken rt (trim a) config = Inr (Some v)"
    and "verifyToken rt' (trim a) config = Inr (Some v)"
    and "length (ctx_channel ctx) \<le> 50" and "length (ctx_peer ctx) \<le> 512"
    and "length (VerifiedIdentity.externalId v) \<le> 256"
    and "verify_command rt (Some config) ctx st = (st1, Reply text)"
  shows "\<exists>l::ResolvedIdentity. verify_command rt' (Some config) ctx st1 =
               (st1, Reply (trim (''You're already verified as ''
                                    @ or_empty (UserRow.first_name l) @ '' ''
                                    @ or_empty (UserRow.last_name l) @ ''. No changes made.'')))"
    and "length (filter (\<lambda>r. UserChannelRow.channel r = ctx_channel ctx \<and>
                            UserChannelRow.channel_peer_id r = ctx_peer ctx)
                   (lp_user_channels (sql st1))) = 1"
    and "length (filter (\<lambda>u. UserRow.external_id u = Some (VerifiedIdentity.externalId v))
                   (lp_users (sql st1))) = 1"
proof -
  let ?st0 = "fst (ensureReady rt st)"
  note vl = verify_command_Reply_link[OF assms(2,3,4,5,10)]
  have ok0: "schema_ok (sql ?st0)" using assms(1) by (simp add: ensureReady_sql)
  note rdy0 = ensureReady_sets_flag[OF assms(4)]
  note est = verify_link_establishes[OF vl ok0 assms(7,8,9)]
  from est have ok1: "schema_ok (sql st1)" by (rule conjunct1)
  from est[THEN conjunct2, THEN conjunct1] rdy0 have rdy1: "schemaReady st1" by simp
  from est[THEN conjunct2, THEN conjunct2, THEN conjunct2, THEN conjunct1] obtain l where
    l: "findUserByChannelPeer (sql st1) (ctx_channel ctx) (ctx_peer ctx) = Some l"
           "UserRow.external_id l = Some (VerifiedIdentity.externalId v)"
    by (elim exE conjE)
  note e1 = ensureReady_when_ready[OF rdy1, of rt']
  have r1: "schemaReady st1 \<or> (\<not> initError st1 \<and> db_reachable rt')" using rdy1 by simp
  note n = already_linked_noop[OF ok1 assms(2,3) r1 assms(6) l]
  show "\<exists>l::ResolvedIdentity. verify_command rt' (Some config) ctx st1 =
               (st1, Reply (trim (''You're already verified as ''
                                    @ or_empty (UserRow.first_name l) @ '' ''
                                    @ or_empty (UserRow.last_name l) @ ''. No changes made.'')))"
  proof (rule exI)
    show "verify_command rt' (Some config) ctx st1 =
               (st1, Reply (trim (''You're already verified as ''
                                    @ or_empty (UserRow.first_name l) @ '' ''
                                    @ or_empty (UserRow.last_name l) @ ''. No changes made.'')))"
      using n(1) unfolding e1 .
  qed
  from n(3) show "length (filter (\<lambda>r. UserChannelRow.channel r = ctx_channel ctx \<and>
                            UserChannelRow.channel_peer_id r = ctx_peer ctx)
                   (lp_user_channels (sql st1))) = 1" .
  from n(4) show "length (filter (\<lambda>u. UserRow.external_id u = Some (VerifiedIdentity.externalId v))
                   (lp_users (sql st1))) = 1" .
qed

text \<open>
  Claim C2 does not hold of the code. For the registered, unverified peer and a token
  whose external id no user owns, \<open>/verify\<close> inserts a second user row carrying the
  external id and points the link at it; the user the peer was linked to keeps
  \<open>external_id = NULL\<close> and loses its link. The upgrade branch of \<open>linkExternalId\<close> is
  never reached from the handler, because \<open>createUser\<close> has run before it.
\<close>

theorem verify_creates_second_user:
  "verify_command demo_runtime (Some demo_config) demo_ctx demo_registered =
     (demo_verified,
      Reply (''Identity verified! Welcome, Ana Lopez.\<newline>''
             @ ''Your user ID: 00000000-0000-4000-8000-00000000000a\<newline>''
             @ ''Linked channels: whatsapp:+15551230000'')) \<and>
   lp_users (sql demo_registered) = [demo_user] \<and>
   lp_users (sql demo_verified) = [demo_user, demo_user_verified] \<and>
   UserRow.external_id demo_user = None \<and>
   map UserChannelRow.user_id (lp_user_channels (sql demo_verified))
     = [UserRow.id demo_user_verified] \<and>
   UserRow.id demo_user_verified \<noteq> UserRow.id demo_user"
  by code_simp

text \<open>
  The same holds of every state: when no user owns the external id, a \<open>/verify\<close> that
  replies has appended one user row and changed no other.
\<close>

lemma verify_link_appends_user:
  assumes "verify_link rt v ch peer st = (st', Reply text)"
    and "schema_ok (sql st)"
    and "length ch \<le> 50" and "length peer \<le> 512"
    and "length (VerifiedIdentity.externalId v) \<le> 256"
    and "findUserByExternalId (sql st) (VerifiedIdentity.externalId v) = None"
  shows "\<exists>new. lp_users (sql st') = lp_users (sql st) @ [new] \<and>
               UserRow.external_id new = Some (VerifiedIdentity.externalId v)"
  using verify_link_establishes[OF assms(1-5), THEN conjunct2, THEN conjunct2,
                                THEN conjunct2, THEN conjunct2]
  unfolding assms(6) by simp

end
